theory Spec2Isabelle
  imports Main
begin

section \<open>The remote service as the client sees it\<close>

text \<open>
  \<^verbatim>\<open>fire_drop.py\<close> is a client of an HTTP service. Every request the client can issue is
  a constructor below; identifiers and names are Python strings.
\<close>

record payload =
  p_name :: string
  p_text :: string
  indexing_technique :: string
  mode :: string
  pre_processing_rules :: "(string \<times> bool) list"
  separator :: string
  max_tokens :: nat

datatype request =
    Get_datasets
      \<comment> \<open>\<^verbatim>\<open>GET /datasets?limit=100\<close>\<close>
  | Post_dataset string
      \<comment> \<open>\<^verbatim>\<open>POST /datasets {"name": db_name}\<close>\<close>
  | Get_documents string "string option"
      \<comment> \<open>\<^verbatim>\<open>GET /datasets/{dataset_id}/documents?keyword=..&limit=100\<close>\<close>
  | Create_by_text string payload
      \<comment> \<open>\<^verbatim>\<open>POST /datasets/{dataset_id}/document/create_by_text\<close>\<close>
  | Update_by_text string string payload
      \<comment> \<open>\<^verbatim>\<open>POST /datasets/{dataset_id}/documents/{document_id}/update_by_text\<close>, timeout 30\<close>
  | Delete_document string string
      \<comment> \<open>\<^verbatim>\<open>DELETE /datasets/{dataset_id}/documents/{document_id}\<close>\<close>
  | Get_indexing_status string string
      \<comment> \<open>\<^verbatim>\<open>GET /datasets/{dataset_id}/documents/{batch}/indexing-status\<close>\<close>

text \<open>An element of a listing: the code reads its keys \<^verbatim>\<open>"id"\<close> and \<^verbatim>\<open>"name"\<close>.\<close>

record entry =
  entry_id :: string
  entry_name :: string

text \<open>The first element of an indexing-status answer.\<close>

record indexing =
  total_segments :: nat
  completed_segments :: nat
  indexing_status :: string

text \<open>\<^verbatim>\<open>class UploadDocumentResponse(BaseModel)\<close>\<close>

record UploadDocumentResponse =
  document :: "(string \<times> string) list"
  batch :: string

text \<open>
  The body of an answer, by the shape the code expects of it: \<^verbatim>\<open>{"data": [entries]}\<close>
  for the two listings, \<^verbatim>\<open>{"data": [progress records]}\<close> for the indexing status, the
  fields of \<^verbatim>\<open>UploadDocumentResponse\<close> for a write, or a body that is not JSON.
  \<open>Empty_data_json\<close> is \<^verbatim>\<open>{"data": x}\<close> for an empty \<open>x\<close> that is not a list (\<^verbatim>\<open>{}\<close> or
  \<^verbatim>\<open>""\<close>): a \<^verbatim>\<open>for\<close> loop over it has no iteration and \<^verbatim>\<open>x[0]\<close> raises.
  \<open>Listing_json []\<close> and \<open>Indexing_json []\<close> both stand for \<^verbatim>\<open>{"data": []}\<close> and are
  treated alike. \<open>Other_json\<close> is any other JSON value: \<^verbatim>\<open>res.json()\<close> returns it, and the
  subscripts and the constructor that the code applies to it raise.
\<close>

datatype body =
    Listing_json "entry list"
  | Indexing_json "indexing list"
  | Empty_data_json
  | Upload_json UploadDocumentResponse
  | Other_json
  | Not_json

text \<open>
  \<^verbatim>\<open>res.json()["data"]\<close> as the sequence that the \<^verbatim>\<open>for\<close> loops over listings go through
  and read \<^verbatim>\<open>"name"\<close> and \<^verbatim>\<open>"id"\<close> of; \<open>None\<close> when one of these accesses raises.
\<close>

fun listing_of :: "body \<Rightarrow> entry list option" where
  "listing_of (Listing_json xs) = Some xs"
| "listing_of (Indexing_json []) = Some []"
| "listing_of Empty_data_json = Some []"
| "listing_of _ = None"

text \<open>
  A call on the \<^verbatim>\<open>httpx\<close> client either raises a transport error or returns a response.
  Of the status the code only uses \<^verbatim>\<open>raise_for_status\<close>; the flag of \<open>Http\<close> says that
  \<^verbatim>\<open>raise_for_status\<close> returns without raising.
\<close>

datatype response =
    Transport_failure
  | Http bool body

text \<open>
  The service is a parameter of every operation: a transition function from its state and a
  request to a response and its next state.
\<close>

type_synonym 's service = "'s \<Rightarrow> request \<Rightarrow> response \<times> 's"

section \<open>Outcomes and traces\<close>

datatype error =
    HTTPStatusError
  | TransportError
  | DecodeError
      \<comment> \<open>\<^verbatim>\<open>res.json()\<close> raising, or a subscript of its value (\<^verbatim>\<open>["data"]\<close>, \<^verbatim>\<open>[0]\<close>, a key)\<close>
  | ValidationError
      \<comment> \<open>the construction \<^verbatim>\<open>UploadDocumentResponse(**...)\<close> raising on a JSON value\<close>

text \<open>
  A call returns a value, raises, or is still running when the budget of iterations given to
  it is used up (\<open>Out_of_fuel\<close>): the recursion of \<^verbatim>\<open>_hook_knowledge_dataset\<close> and the
  \<^verbatim>\<open>while True\<close> of \<^verbatim>\<open>_sync_indexing_status\<close> have no bound of their own.
\<close>

datatype 'a outcome =
    Returned 'a
  | Raised error
  | Out_of_fuel

datatype level = DEBUG | SUCCESS | WARNING | ERROR

text \<open>
  What a call does besides returning: the requests it sends, the \<^verbatim>\<open>loguru\<close> records it
  writes (by level; the message texts are not modelled) and its calls of \<^verbatim>\<open>time.sleep\<close>
  (in seconds).
\<close>

datatype event =
    Req request
  | Log level
  | Sleep nat

type_synonym ('a, 's) run = "'a outcome \<times> 's \<times> event list"

definition emit :: "event list \<Rightarrow> ('a, 's) run \<Rightarrow> ('a, 's) run" where
  "emit es r = (case r of (out, s, tr) \<Rightarrow> (out, s, es @ tr))"

definition and_then :: "('a, 's) run \<Rightarrow> ('a \<Rightarrow> 's \<Rightarrow> ('b, 's) run) \<Rightarrow> ('b, 's) run" where
  "and_then r k =
     (case r of
        (Returned x, s, tr) \<Rightarrow> emit tr (k x s)
      | (Raised e, s, tr) \<Rightarrow> (Raised e, s, tr)
      | (Out_of_fuel, s, tr) \<Rightarrow> (Out_of_fuel, s, tr))"

fun requests_of :: "event list \<Rightarrow> request list" where
  "requests_of [] = []"
| "requests_of (Req r # es) = r # requests_of es"
| "requests_of (Log l # es) = requests_of es"
| "requests_of (Sleep n # es) = requests_of es"

section \<open>The client\<close>

record client =
  my_separator :: string

definition default_separator :: string where
  "default_separator =
     [CHR 0x0A, CHR 0x0A] @ ''------------'' @ [CHR 0x0A, CHR 0x0A]"

text \<open>
  \<^verbatim>\<open>__init__\<close>: the separator argument, the value of the environment variable
  \<^verbatim>\<open>DIFY_DATABASE_API_KEY\<close> and the \<^verbatim>\<open>api_key\<close> argument. \<open>None\<close> is \<^verbatim>\<open>sys.exit()\<close>.
\<close>

definition init :: "string option \<Rightarrow> string option \<Rightarrow> string option \<Rightarrow> client option" where
  "init sep env_key api_key =
     (let key = (case env_key of Some k \<Rightarrow> Some k | None \<Rightarrow> api_key) in
      if key = None \<or> key = Some [] then None
      else Some \<lparr>my_separator =
                  (case sep of None \<Rightarrow> default_separator
                   | Some x \<Rightarrow> if x = [] then default_separator else x)\<rparr>)"

definition document_preprocess_payload :: "client \<Rightarrow> string \<Rightarrow> string \<Rightarrow> payload" where
  "document_preprocess_payload c name text =
     \<lparr>p_name = name, p_text = text,
      indexing_technique = ''high_quality'',
      mode = ''custom'',
      pre_processing_rules = [(''remove_extra_spaces'', False), (''remove_urls_emails'', False)],
      separator = my_separator c,
      max_tokens = 1000\<rparr>"

definition delete_document :: "'s service \<Rightarrow> string \<Rightarrow> string \<Rightarrow> 's \<Rightarrow> (unit, 's) run" where
  "delete_document serve dataset_id document_id s =
     (let r = Delete_document dataset_id document_id in
      case serve s r of
        (Transport_failure, s') \<Rightarrow> (Raised TransportError, s', [Req r])
      | (Http ok b, s') \<Rightarrow>
          if ok then (Returned (), s', [Req r])
          else (Raised HTTPStatusError, s', [Req r]))"

definition update_document_by_text ::
  "client \<Rightarrow> 's service \<Rightarrow> string \<Rightarrow> string \<Rightarrow> string \<Rightarrow> string \<Rightarrow> 's
     \<Rightarrow> (UploadDocumentResponse option, 's) run" where
  "update_document_by_text c serve dataset_id document_id table_name text s =
     (let r = Update_by_text dataset_id document_id (document_preprocess_payload c table_name text) in
      case serve s r of
        (Transport_failure, s') \<Rightarrow> (Raised TransportError, s', [Req r])
      | (Http ok b, s') \<Rightarrow>
          if \<not> ok then (Returned None, s', [Req r, Log ERROR])
          else (case b of
                  Upload_json udr \<Rightarrow> (Returned (Some udr), s', [Req r])
                | Not_json \<Rightarrow> (Raised DecodeError, s', [Req r])
                | _ \<Rightarrow> (Raised ValidationError, s', [Req r])))"

definition create_document_by_text ::
  "client \<Rightarrow> 's service \<Rightarrow> string \<Rightarrow> string \<Rightarrow> string \<Rightarrow> 's
     \<Rightarrow> (UploadDocumentResponse, 's) run" where
  "create_document_by_text c serve dataset_id table_name text s =
     (let r = Create_by_text dataset_id (document_preprocess_payload c table_name text) in
      case serve s r of
        (Transport_failure, s') \<Rightarrow> (Raised TransportError, s', [Req r])
      | (Http ok b, s') \<Rightarrow>
          if \<not> ok then (Raised HTTPStatusError, s', [Req r])
          else (case b of
                  Upload_json udr \<Rightarrow> (Returned udr, s', [Req r])
                | Not_json \<Rightarrow> (Raised DecodeError, s', [Req r])
                | _ \<Rightarrow> (Raised ValidationError, s', [Req r])))"

text \<open>
  The scan shared by \<^verbatim>\<open>_hook_knowledge_dataset\<close> and \<^verbatim>\<open>_sync_document_id\<close>:
  \<^verbatim>\<open>for x in xs: if x["name"] == name: return x["id"]\<close>; \<open>None\<close> when the loop ends.
\<close>

fun first_named :: "entry list \<Rightarrow> string \<Rightarrow> string option" where
  "first_named [] name = None"
| "first_named (x # xs) name =
     (if entry_name x = name then Some (entry_id x) else first_named xs name)"

text \<open>
  \<^verbatim>\<open>_hook_knowledge_dataset\<close>. The first argument is the depth of recursion allowed
  to the call; the source has no bound of its own (the interpreter's recursion limit is
  the only one), and \<open>Out_of_fuel\<close> is the call that has not returned within that depth.
\<close>

fun hook_knowledge_dataset :: "nat \<Rightarrow> 's service \<Rightarrow> string \<Rightarrow> 's \<Rightarrow> (string, 's) run" where
  "hook_knowledge_dataset 0 serve db_name s = (Out_of_fuel, s, [])"
| "hook_knowledge_dataset (Suc n) serve db_name s =
     (case serve s Get_datasets of
        (Transport_failure, s1) \<Rightarrow> (Raised TransportError, s1, [Req Get_datasets])
      | (Http ok b, s1) \<Rightarrow>
          (case listing_of b of
             Some datasets \<Rightarrow>
               (case first_named datasets db_name of
                  Some dataset_id \<Rightarrow> (Returned dataset_id, s1, [Req Get_datasets, Log SUCCESS])
                | None \<Rightarrow>
                    (case serve s1 (Post_dataset db_name) of
                       (Transport_failure, s2) \<Rightarrow>
                         (Raised TransportError, s2,
                          [Req Get_datasets, Log WARNING, Req (Post_dataset db_name)])
                     | (Http ok2 b2, s2) \<Rightarrow>
                         if b2 = Not_json
                         then (Raised DecodeError, s2,
                               [Req Get_datasets, Log WARNING, Req (Post_dataset db_name)])
                         else emit [Req Get_datasets, Log WARNING, Req (Post_dataset db_name),
                                    Log SUCCESS]
                                (hook_knowledge_dataset n serve db_name s2)))
           | None \<Rightarrow> (Raised DecodeError, s1, [Req Get_datasets])))"

definition list_documents ::
  "'s service \<Rightarrow> string \<Rightarrow> string option \<Rightarrow> 's \<Rightarrow> (entry list, 's) run" where
  "list_documents serve dataset_id table_name s =
     (let r = Get_documents dataset_id table_name in
      case serve s r of
        (Transport_failure, s') \<Rightarrow> (Raised TransportError, s', [Req r])
      | (Http ok b, s') \<Rightarrow>
          (case listing_of b of
             Some documents \<Rightarrow> (Returned documents, s', [Req r])
           | None \<Rightarrow> (Raised DecodeError, s', [Req r])))"

definition sync_document_id ::
  "'s service \<Rightarrow> string \<Rightarrow> string \<Rightarrow> 's \<Rightarrow> (string option, 's) run" where
  "sync_document_id serve dataset_id table_name s =
     and_then (list_documents serve dataset_id (Some table_name) s)
       (\<lambda>documents s'. (Returned (first_named documents (table_name @ ''.txt'')), s', []))"

text \<open>
  \<^verbatim>\<open>_sync_indexing_status\<close>. The first argument bounds the number of iterations of the
  \<^verbatim>\<open>while True\<close>; the source has no such bound. The progress bar is not modelled.
\<close>

fun sync_indexing_status :: "nat \<Rightarrow> 's service \<Rightarrow> string \<Rightarrow> string \<Rightarrow> 's \<Rightarrow> (unit, 's) run" where
  "sync_indexing_status 0 serve dataset_id batch_token s = (Out_of_fuel, s, [])"
| "sync_indexing_status (Suc n) serve dataset_id batch_token s =
     (let r = Get_indexing_status dataset_id batch_token in
      case serve s r of
        (Transport_failure, s') \<Rightarrow> (Raised TransportError, s', [Req r])
      | (Http ok b, s') \<Rightarrow>
          (case b of
             Indexing_json (data # rest) \<Rightarrow>
               (let status = indexing_status data in
                if status \<in> set [''error'', ''completed'']
                then (Returned (), s', [Req r, Sleep 1])
                else emit [Req r, Sleep 1] (sync_indexing_status n serve dataset_id batch_token s'))
           | _ \<Rightarrow> (Raised DecodeError, s', [Req r])))"

text \<open>
  Python's truth value of \<^verbatim>\<open>document_id\<close> in \<^verbatim>\<open>if document_id := ...\<close>: \<^verbatim>\<open>None\<close> and the
  empty string are false.
\<close>

fun truthy :: "string option \<Rightarrow> bool" where
  "truthy None = False"
| "truthy (Some x) = (x \<noteq> [])"

text \<open>The body of the \<^verbatim>\<open>for\<close> loop of \<^verbatim>\<open>embed_knowledge\<close>, up to the value of \<^verbatim>\<open>response\<close>.\<close>

definition embed_one ::
  "client \<Rightarrow> 's service \<Rightarrow> string \<Rightarrow> bool \<Rightarrow> string \<Rightarrow> string \<Rightarrow> 's
     \<Rightarrow> (UploadDocumentResponse option, 's) run" where
  "embed_one c serve dataset_id force_override table_name knowledge_card s =
     and_then (sync_document_id serve dataset_id table_name s)
       (\<lambda>found s1.
          let create = (\<lambda>s2.
                and_then (create_document_by_text c serve dataset_id table_name knowledge_card s2)
                  (\<lambda>udr s3. (Returned (Some udr), s3, [])))
          in case found of
               None \<Rightarrow> create s1
             | Some document_id \<Rightarrow>
                 if truthy found then
                   (if force_override then
                      and_then (delete_document serve dataset_id document_id s1) (\<lambda>_ s2. create s2)
                    else update_document_by_text c serve dataset_id document_id table_name
                           knowledge_card s1)
                 else create s1)"

text \<open>
  The \<^verbatim>\<open>for\<close> loop of \<^verbatim>\<open>embed_knowledge\<close> over \<^verbatim>\<open>table_to_knowledge.items()\<close> (a dict, in
  insertion order), with \<^verbatim>\<open>response_seq\<close> as accumulator.
\<close>

fun embed_loop ::
  "client \<Rightarrow> 's service \<Rightarrow> string \<Rightarrow> bool \<Rightarrow> (string \<times> string) list
     \<Rightarrow> UploadDocumentResponse option list \<Rightarrow> 's
     \<Rightarrow> (UploadDocumentResponse option list, 's) run" where
  "embed_loop c serve dataset_id force_override [] response_seq s = (Returned response_seq, s, [])"
| "embed_loop c serve dataset_id force_override ((table_name, knowledge_card) # items) response_seq s =
     and_then (embed_one c serve dataset_id force_override table_name knowledge_card s)
       (\<lambda>response s'.
          embed_loop c serve dataset_id force_override items (response_seq @ [response]) s')"

text \<open>
  \<^verbatim>\<open>embed_knowledge\<close>. Its value is what the Python call returns: \<open>None\<close> is Python's
  \<^verbatim>\<open>None\<close>, \<open>Some xs\<close> would be a list.
\<close>

definition embed_knowledge ::
  "nat \<Rightarrow> client \<Rightarrow> 's service \<Rightarrow> (string \<times> string) list \<Rightarrow> string \<Rightarrow> bool \<Rightarrow> 's
     \<Rightarrow> (UploadDocumentResponse option list option, 's) run" where
  "embed_knowledge n c serve table_to_knowledge db_name force_override s =
     (if table_to_knowledge = [] then (Returned None, s, [Log ERROR])
      else
        and_then (hook_knowledge_dataset n serve db_name s)
          (\<lambda>dataset_id s1.
             and_then (embed_loop c serve dataset_id force_override table_to_knowledge [] s1)
               (\<lambda>response_seq s2. (Returned None, s2, []))))"

text \<open>The \<^verbatim>\<open>for\<close> loop of \<^verbatim>\<open>delete_all_document\<close>.\<close>

fun delete_loop :: "'s service \<Rightarrow> string \<Rightarrow> entry list \<Rightarrow> 's \<Rightarrow> (unit, 's) run" where
  "delete_loop serve dataset_id [] s = (Returned (), s, [])"
| "delete_loop serve dataset_id (doc # docs) s =
     (case delete_document serve dataset_id (entry_id doc) s of
        (Returned u, s', tr) \<Rightarrow> emit (tr @ [Log DEBUG]) (delete_loop serve dataset_id docs s')
      | (Raised HTTPStatusError, s', tr) \<Rightarrow>
          emit (tr @ [Log WARNING]) (delete_loop serve dataset_id docs s')
      | (Raised e, s', tr) \<Rightarrow> (Raised e, s', tr)
      | (Out_of_fuel, s', tr) \<Rightarrow> (Out_of_fuel, s', tr))"

definition delete_all_document :: "nat \<Rightarrow> 's service \<Rightarrow> string \<Rightarrow> 's \<Rightarrow> (unit, 's) run" where
  "delete_all_document n serve db_name s =
     and_then (hook_knowledge_dataset n serve db_name s)
       (\<lambda>dataset_id s1.
          and_then (list_documents serve dataset_id None s1)
            (\<lambda>docs s2.
               and_then (delete_loop serve dataset_id docs s2)
                 (\<lambda>_ s3. (Returned (), s3, [Log SUCCESS]))))"

section \<open>Sample services\<close>

text \<open>
  Concrete services to run the client against. \<open>replay d\<close> answers from a script, request
  after request, whatever is asked, and with \<open>d\<close> once the script is used up.
\<close>

fun replay :: "response \<Rightarrow> response list service" where
  "replay d [] r = (d, [])"
| "replay d (x # xs) r = (x, xs)"

text \<open>A service without state, whose answer depends on the request alone.\<close>

definition by_request :: "(request \<Rightarrow> response) \<Rightarrow> unit service" where
  "by_request f s r = (f r, s)"

text \<open>
  A service that keeps the datasets created so far and lists them; its datasets hold no
  documents.
\<close>

fun memory :: "entry list service" where
  "memory s Get_datasets = (Http True (Listing_json s), s)"
| "memory s (Post_dataset name) =
     (Http True Other_json, s @ [\<lparr>entry_id = ''id-'' @ name, entry_name = name\<rparr>])"
| "memory s (Get_documents dataset_id keyword) = (Http True (Listing_json []), s)"
| "memory s r = (Http False Other_json, s)"

section \<open>The polls of the indexing monitor\<close>

text \<open>
  The state of the service after \<open>k\<close> polls, the status that poll number \<open>k\<close> (from 0) reads
  (\<open>None\<close> when it raises instead) and the trace of \<open>k\<close> iterations of the loop.
\<close>

fun poll_state :: "'s service \<Rightarrow> request \<Rightarrow> nat \<Rightarrow> 's \<Rightarrow> 's" where
  "poll_state serve r 0 s = s"
| "poll_state serve r (Suc k) s = poll_state serve r k (snd (serve s r))"

fun status_of :: "response \<Rightarrow> string option" where
  "status_of (Http ok (Indexing_json (data # rest))) = Some (indexing_status data)"
| "status_of _ = None"

definition poll_status :: "'s service \<Rightarrow> request \<Rightarrow> nat \<Rightarrow> 's \<Rightarrow> string option" where
  "poll_status serve r k s = status_of (fst (serve (poll_state serve r k s) r))"

definition terminal :: "string \<Rightarrow> bool" where
  "terminal status = (status = ''error'' \<or> status = ''completed'')"

fun polls :: "nat \<Rightarrow> request \<Rightarrow> event list" where
  "polls 0 r = []"
| "polls (Suc k) r = [Req r, Sleep 1] @ polls k r"

section \<open>The rounds of dataset resolution\<close>

text \<open>The requests of \<open>n\<close> rounds of \<^verbatim>\<open>_hook_knowledge_dataset\<close> that do not find the name.\<close>

fun rounds :: "nat \<Rightarrow> string \<Rightarrow> request list" where
  "rounds 0 db_name = []"
| "rounds (Suc n) db_name = [Get_datasets, Post_dataset db_name] @ rounds n db_name"

section \<open>Sample data\<close>

definition c0 :: client where
  "c0 = \<lparr>my_separator = default_separator\<rparr>"

definition users_doc :: entry where
  "users_doc = \<lparr>entry_id = ''doc1'', entry_name = ''users.txt''\<rparr>"

definition orders_doc :: entry where
  "orders_doc = \<lparr>entry_id = ''doc2'', entry_name = ''orders.txt''\<rparr>"

definition catalog :: entry where
  "catalog = \<lparr>entry_id = ''d1'', entry_name = ''catalog''\<rparr>"

definition udr0 :: UploadDocumentResponse where
  "udr0 = \<lparr>document = [], batch = ''b1''\<rparr>"

text \<open>
  The answers of a service that holds the dataset \<open>catalog\<close> with two documents and
  refuses to delete the first of them.
\<close>

definition picky :: "request \<Rightarrow> response" where
  "picky r =
     (case r of
        Get_datasets \<Rightarrow> Http True (Listing_json [catalog])
      | Get_documents dataset_id keyword \<Rightarrow> Http True (Listing_json [users_doc, orders_doc])
      | Delete_document dataset_id document_id \<Rightarrow> Http (document_id \<noteq> ''doc1'') Other_json
      | _ \<Rightarrow> Http False Other_json)"

text \<open>An indexing-status answer with the given status.\<close>

definition progress :: "string \<Rightarrow> response" where
  "progress status =
     Http True (Indexing_json [\<lparr>total_segments = 4, completed_segments = 2,
                                indexing_status = status\<rparr>])"

section \<open>Basic facts\<close>

lemma emit_simps [simp]: "emit es (out, s, tr) = (out, s, es @ tr)"
  by (simp add: emit_def)

lemma and_then_simps [simp]:
  "and_then (Returned x, s, tr) k = emit tr (k x s)"
  "and_then (Raised e, s, tr) k = (Raised e, s, tr)"
  "and_then (Out_of_fuel, s, tr) k = (Out_of_fuel, s, tr)"
  by (simp_all add: and_then_def)

lemma emit_emit [simp]: "emit es (emit fs r) = emit (es @ fs) r"
  by (cases r) simp

lemma emit_Nil [simp]: "emit [] r = r"
  by (cases r) simp

lemma fst_emit [simp]: "fst (emit es r) = fst r"
  by (cases r) simp

lemma requests_of_append [simp]: "requests_of (xs @ ys) = requests_of xs @ requests_of ys"
  by (induction xs rule: requests_of.induct) simp_all

lemma sync_document_id_listing:
  assumes "serve s (Get_documents dataset_id (Some table_name)) = (Http ok (Listing_json documents), s1)"
  shows "sync_document_id serve dataset_id table_name s =
           (Returned (first_named documents (table_name @ ''.txt'')), s1,
            [Req (Get_documents dataset_id (Some table_name))])"
  using assms by (simp add: sync_document_id_def list_documents_def)

lemma update_rejected:
  assumes "serve s (Update_by_text dataset_id document_id
                      (document_preprocess_payload c table_name knowledge_card)) = (Http False b, s')"
  shows "update_document_by_text c serve dataset_id document_id table_name knowledge_card s =
           (Returned None, s',
            [Req (Update_by_text dataset_id document_id
                    (document_preprocess_payload c table_name knowledge_card)), Log ERROR])"
  using assms by (simp add: update_document_by_text_def)

lemma embed_one_update_rejected:
  assumes "serve s (Get_documents dataset_id (Some table_name)) = (Http ok (Listing_json documents), s1)"
    and "first_named documents (table_name @ ''.txt'') = Some document_id"
    and "document_id \<noteq> []"
    and "serve s1 (Update_by_text dataset_id document_id
                      (document_preprocess_payload c table_name knowledge_card)) = (Http False b, s2)"
  shows "embed_one c serve dataset_id False table_name knowledge_card s =
           (Returned None, s2,
            [Req (Get_documents dataset_id (Some table_name)),
             Req (Update_by_text dataset_id document_id
                    (document_preprocess_payload c table_name knowledge_card)), Log ERROR])"
  using assms by (simp add: embed_one_def sync_document_id_listing update_rejected)

lemma create_rejected:
  assumes "serve s (Create_by_text dataset_id (document_preprocess_payload c table_name knowledge_card)) =
             (Http False b, s')"
  shows "create_document_by_text c serve dataset_id table_name knowledge_card s =
           (Raised HTTPStatusError, s',
            [Req (Create_by_text dataset_id (document_preprocess_payload c table_name knowledge_card))])"
  using assms by (simp add: create_document_by_text_def)

lemma delete_rejected:
  assumes "serve s (Delete_document dataset_id document_id) = (Http False b, s')"
  shows "delete_document serve dataset_id document_id s =
           (Raised HTTPStatusError, s', [Req (Delete_document dataset_id document_id)])"
  using assms by (simp add: delete_document_def)

lemma delete_accepted:
  assumes "serve s (Delete_document dataset_id document_id) = (Http True b, s')"
  shows "delete_document serve dataset_id document_id s =
           (Returned (), s', [Req (Delete_document dataset_id document_id)])"
  using assms by (simp add: delete_document_def)

lemma requests_of_create:
  "requests_of (snd (snd (create_document_by_text c serve dataset_id table_name knowledge_card s))) =
     [Create_by_text dataset_id (document_preprocess_payload c table_name knowledge_card)]"
  by (simp add: create_document_by_text_def Let_def split: prod.splits response.splits body.splits)

lemma requests_of_update:
  "requests_of (snd (snd (update_document_by_text c serve dataset_id document_id table_name knowledge_card s))) =
     [Update_by_text dataset_id document_id (document_preprocess_payload c table_name knowledge_card)]"
  by (simp add: update_document_by_text_def Let_def split: prod.splits response.splits body.splits)

lemma snd_snd_emit [simp]: "snd (snd (emit es r)) = es @ snd (snd r)"
  by (cases r) simp

lemma requests_of_create_some:
  "requests_of (snd (snd (and_then (create_document_by_text c serve dataset_id table_name knowledge_card s)
       (\<lambda>udr s3. (Returned (Some udr), s3, []))))) =
     [Create_by_text dataset_id (document_preprocess_payload c table_name knowledge_card)]"
  using requests_of_create [of c serve dataset_id table_name knowledge_card s]
  by (cases "create_document_by_text c serve dataset_id table_name knowledge_card s" rule: prod_cases3)
     (auto simp: and_then_def split: outcome.splits)

lemma embed_one_create_rejected:
  assumes "serve s (Get_documents dataset_id (Some table_name)) = (Http ok (Listing_json documents), s1)"
    and "first_named documents (table_name @ ''.txt'') = None"
    and "serve s1 (Create_by_text dataset_id (document_preprocess_payload c table_name knowledge_card)) =
           (Http False b, s2)"
  shows "embed_one c serve dataset_id force_override table_name knowledge_card s =
           (Raised HTTPStatusError, s2,
            [Req (Get_documents dataset_id (Some table_name)),
             Req (Create_by_text dataset_id (document_preprocess_payload c table_name knowledge_card))])"
  using assms by (simp add: embed_one_def sync_document_id_listing create_rejected)

lemma embed_one_delete_rejected:
  assumes "serve s (Get_documents dataset_id (Some table_name)) = (Http ok (Listing_json documents), s1)"
    and "first_named documents (table_name @ ''.txt'') = Some document_id"
    and "document_id \<noteq> []"
    and "serve s1 (Delete_document dataset_id document_id) = (Http False b, s2)"
  shows "embed_one c serve dataset_id True table_name knowledge_card s =
           (Raised HTTPStatusError, s2,
            [Req (Get_documents dataset_id (Some table_name)),
             Req (Delete_document dataset_id document_id)])"
  using assms by (simp add: embed_one_def sync_document_id_listing delete_rejected)

lemma create_some_not_out_of_fuel:
  "fst (and_then (create_document_by_text c serve dataset_id table_name knowledge_card s)
       (\<lambda>udr s3. (Returned (Some udr), s3, []))) \<noteq> Out_of_fuel"
  by (simp add: create_document_by_text_def Let_def
      split: prod.splits response.splits body.splits)

lemma update_not_out_of_fuel:
  "fst (update_document_by_text c serve dataset_id document_id table_name knowledge_card s)
     \<noteq> Out_of_fuel"
  by (simp add: update_document_by_text_def Let_def
      split: prod.splits response.splits body.splits)

lemma sync_document_id_cases:
  "(\<exists>found s1. sync_document_id serve dataset_id table_name s =
        (Returned found, s1, [Req (Get_documents dataset_id (Some table_name))]))
   \<or> (\<exists>e s1. sync_document_id serve dataset_id table_name s =
        (Raised e, s1, [Req (Get_documents dataset_id (Some table_name))]))"
  by (simp add: sync_document_id_def list_documents_def Let_def
      split: prod.splits response.splits option.splits)

lemma delete_document_cases:
  "(\<exists>s1. delete_document serve dataset_id document_id s =
        (Returned (), s1, [Req (Delete_document dataset_id document_id)]))
   \<or> (\<exists>e s1. delete_document serve dataset_id document_id s =
        (Raised e, s1, [Req (Delete_document dataset_id document_id)]))"
  by (simp add: delete_document_def Let_def split: prod.splits response.splits)

lemma embed_one_not_out_of_fuel:
  "fst (embed_one c serve dataset_id force_override table_name knowledge_card s) \<noteq> Out_of_fuel"
proof -
  consider (ret) found s1 where "sync_document_id serve dataset_id table_name s =
        (Returned found, s1, [Req (Get_documents dataset_id (Some table_name))])"
    | (err) e s1 where "sync_document_id serve dataset_id table_name s =
        (Raised e, s1, [Req (Get_documents dataset_id (Some table_name))])"
    using sync_document_id_cases [of serve dataset_id table_name s] by blast
  then show ?thesis
  proof cases
    case err
    then show ?thesis by (simp add: embed_one_def)
  next
    case ret
    show ?thesis
    proof (cases found)
      case None
      with ret show ?thesis
        by (simp add: embed_one_def create_some_not_out_of_fuel)
    next
      case (Some document_id)
      consider (ok) s2 where "delete_document serve dataset_id document_id s1 =
            (Returned (), s2, [Req (Delete_document dataset_id document_id)])"
        | (bad) e s2 where "delete_document serve dataset_id document_id s1 =
            (Raised e, s2, [Req (Delete_document dataset_id document_id)])"
        using delete_document_cases [of serve dataset_id document_id s1] by blast
      then show ?thesis
        using ret Some
        by cases (simp_all add: embed_one_def create_some_not_out_of_fuel update_not_out_of_fuel)
    qed
  qed
qed

lemma embed_loop_collects:
  "embed_loop c serve dataset_id force_override items response_seq s = (Returned xs, s', tr)
     \<Longrightarrow> length xs = length response_seq + length items \<and> take (length response_seq) xs = response_seq"
proof (induction items arbitrary: response_seq s tr)
  case Nil
  then show ?case by simp
next
  case (Cons item items)
  obtain table_name knowledge_card where item: "item = (table_name, knowledge_card)"
    by (cases item)
  obtain out s1 tr1 where one:
    "embed_one c serve dataset_id force_override table_name knowledge_card s = (out, s1, tr1)"
    by (cases "embed_one c serve dataset_id force_override table_name knowledge_card s")
  show ?case
  proof (cases out)
    case (Returned response)
    obtain out2 s2 tr2 where rest:
      "embed_loop c serve dataset_id force_override items (response_seq @ [response]) s1 =
         (out2, s2, tr2)"
      by (cases "embed_loop c serve dataset_id force_override items (response_seq @ [response]) s1")
    with Cons.prems item one Returned have "out2 = Returned xs" and "s2 = s'" by simp_all
    with rest Cons.IH [of "response_seq @ [response]" s1 tr2]
    have len: "length xs = length (response_seq @ [response]) + length items"
      and pre: "take (length (response_seq @ [response])) xs = response_seq @ [response]"
      by simp_all
    have "take (length response_seq) xs =
            take (length response_seq) (take (length (response_seq @ [response])) xs)"
      by (simp add: min_def)
    also have "\<dots> = response_seq"
      by (simp only: pre) simp
    finally show ?thesis
      using len by simp
  next
    case (Raised e)
    with Cons.prems item one show ?thesis by simp
  next
    case Out_of_fuel
    with Cons.prems item one show ?thesis by simp
  qed
qed

lemma embed_loop_not_out_of_fuel:
  "fst (embed_loop c serve dataset_id force_override items response_seq s) \<noteq> Out_of_fuel"
proof (induction items arbitrary: response_seq s)
  case Nil
  then show ?case by simp
next
  case (Cons item items)
  obtain table_name knowledge_card where item: "item = (table_name, knowledge_card)"
    by (cases item)
  obtain out s1 tr1 where one:
    "embed_one c serve dataset_id force_override table_name knowledge_card s = (out, s1, tr1)"
    by (cases "embed_one c serve dataset_id force_override table_name knowledge_card s")
  show ?case
  proof (cases out)
    case (Returned response)
    with item one Cons.IH [of "response_seq @ [response]" s1] show ?thesis by simp
  next
    case (Raised e)
    with item one show ?thesis by simp
  next
    case Out_of_fuel
    with embed_one_not_out_of_fuel [of c serve dataset_id force_override table_name knowledge_card s]
      one show ?thesis by simp
  qed
qed

lemma emit_eq_iff: "emit es r = (out, s, tr) \<longleftrightarrow> (\<exists>tr'. r = (out, s, tr') \<and> tr = es @ tr')"
  by (cases r) auto

lemma hook_not_listed:
  assumes "serve s Get_datasets = (Http ok (Listing_json datasets), s1)"
    and "first_named datasets db_name = None"
    and "serve s1 (Post_dataset db_name) = (Http ok2 b2, s2)"
    and "b2 \<noteq> Not_json"
  shows "hook_knowledge_dataset (Suc n) serve db_name s =
           emit [Req Get_datasets, Log WARNING, Req (Post_dataset db_name), Log SUCCESS]
             (hook_knowledge_dataset n serve db_name s2)"
  using assms by simp

lemma listing_of_nonempty:
  "listing_of b = Some xs \<Longrightarrow> xs \<noteq> [] \<Longrightarrow> b = Listing_json xs"
  by (cases b rule: listing_of.cases) simp_all

lemma hook_returned_from_listing:
  "hook_knowledge_dataset n serve db_name s = (Returned dataset_id, s1, tr)
     \<Longrightarrow> \<exists>s0 ok datasets. serve s0 Get_datasets = (Http ok (Listing_json datasets), s1)
           \<and> first_named datasets db_name = Some dataset_id"
proof (induction n arbitrary: s tr)
  case 0
  then show ?case by simp
next
  case (Suc n)
  obtain r s' where g: "serve s Get_datasets = (r, s')"
    by (cases "serve s Get_datasets")
  show ?case
  proof (cases r)
    case Transport_failure
    with Suc.prems g show ?thesis by simp
  next
    case (Http ok b)
    show ?thesis
    proof (cases "listing_of b")
      case None
      with Suc.prems g Http show ?thesis by simp
    next
      case listed: (Some datasets)
      show ?thesis
      proof (cases "first_named datasets db_name")
        case (Some d)
        then have "datasets \<noteq> []" by auto
        with listed have "b = Listing_json datasets" by (rule listing_of_nonempty)
        with Suc.prems g Http listed Some show ?thesis by auto
      next
        case None
        obtain r2 s2 where p: "serve s' (Post_dataset db_name) = (r2, s2)"
          by (cases "serve s' (Post_dataset db_name)")
        show ?thesis
        proof (cases r2)
          case Transport_failure
          with Suc.prems g Http listed None p show ?thesis by simp
        next
          case posted: (Http ok2 b2)
          show ?thesis
          proof (cases "b2 = Not_json")
            case True
            with Suc.prems g Http listed None p posted show ?thesis by simp
          next
            case False
            with Suc.prems g Http listed None p posted
            obtain tr' where "hook_knowledge_dataset n serve db_name s2 = (Returned dataset_id, s1, tr')"
              by (auto simp: emit_eq_iff)
            then show ?thesis by (rule Suc.IH)
          qed
        qed
      qed
    qed
  qed
qed

lemma and_then_prefix:
  "\<exists>out s' rest. r = (out, s', es @ rest) \<Longrightarrow> \<exists>out s' rest. and_then r k = (out, s', es @ rest)"
proof -
  assume "\<exists>out s' rest. r = (out, s', es @ rest)"
  then obtain out s' rest where r: "r = (out, s', es @ rest)" by blast
  show ?thesis
  proof (cases out)
    case (Returned x)
    obtain out2 s2 tr2 where "k x s' = (out2, s2, tr2)" by (cases "k x s'")
    with r Returned show ?thesis by simp
  qed (use r in simp_all)
qed

lemma hook_creates_first:
  assumes "serve s Get_datasets = (Http ok (Listing_json datasets), s1)"
    and "first_named datasets db_name = None"
  shows "\<exists>out s' rest. hook_knowledge_dataset (Suc n) serve db_name s =
           (out, s', [Req Get_datasets, Log WARNING, Req (Post_dataset db_name)] @ rest)"
proof -
  obtain r2 s2 where p: "serve s1 (Post_dataset db_name) = (r2, s2)"
    by (cases "serve s1 (Post_dataset db_name)")
  show ?thesis
  proof (cases r2)
    case Transport_failure
    with assms p show ?thesis by simp
  next
    case (Http ok2 b2)
    obtain out s' tr where "hook_knowledge_dataset n serve db_name s2 = (out, s', tr)"
      by (cases "hook_knowledge_dataset n serve db_name s2")
    with assms p Http show ?thesis by simp
  qed
qed

lemma delete_loop_rejected:
  assumes "serve s (Delete_document dataset_id (entry_id doc)) = (Http False b, s')"
  shows "delete_loop serve dataset_id (doc # docs) s =
           emit [Req (Delete_document dataset_id (entry_id doc)), Log WARNING]
             (delete_loop serve dataset_id docs s')"
  using assms by (simp add: delete_document_def)

lemma delete_loop_all:
  assumes "\<forall>s document_id. fst (serve s (Delete_document dataset_id document_id)) \<noteq> Transport_failure"
  shows "fst (delete_loop serve dataset_id docs s) = Returned ()
       \<and> requests_of (snd (snd (delete_loop serve dataset_id docs s))) =
           map (\<lambda>doc. Delete_document dataset_id (entry_id doc)) docs"
proof (induction docs arbitrary: s)
  case Nil
  show ?case by simp
next
  case (Cons doc docs)
  obtain r s' where d: "serve s (Delete_document dataset_id (entry_id doc)) = (r, s')"
    by (cases "serve s (Delete_document dataset_id (entry_id doc))")
  with assms have "r \<noteq> Transport_failure"
    by (metis fst_conv)
  then obtain ok b where r: "r = Http ok b"
    by (cases r) simp_all
  show ?case
    using d r Cons.IH [of s'] by (cases ok) (simp_all add: delete_document_def)
qed

lemma status_of_Some:
  "status_of r = Some st \<Longrightarrow> \<exists>ok data rest. r = Http ok (Indexing_json (data # rest)) \<and> indexing_status data = st"
  by (cases r rule: status_of.cases) simp_all

lemma sync_step_running:
  assumes "poll_status serve (Get_indexing_status dataset_id batch_token) 0 s = Some st"
    and "\<not> terminal st"
  shows "sync_indexing_status (Suc n) serve dataset_id batch_token s =
           emit [Req (Get_indexing_status dataset_id batch_token), Sleep 1]
             (sync_indexing_status n serve dataset_id batch_token
                (snd (serve s (Get_indexing_status dataset_id batch_token))))"
proof -
  obtain r s' where g: "serve s (Get_indexing_status dataset_id batch_token) = (r, s')"
    by (cases "serve s (Get_indexing_status dataset_id batch_token)")
  with assms(1) have "status_of r = Some st"
    by (simp add: poll_status_def)
  then obtain ok data rest where "r = Http ok (Indexing_json (data # rest))"
    and "indexing_status data = st"
    using status_of_Some by blast
  with g assms(2) show ?thesis
    by (simp add: terminal_def)
qed

lemma sync_step_terminal:
  assumes "poll_status serve (Get_indexing_status dataset_id batch_token) 0 s = Some st"
    and "terminal st"
  shows "sync_indexing_status (Suc n) serve dataset_id batch_token s =
           (Returned (), snd (serve s (Get_indexing_status dataset_id batch_token)),
            [Req (Get_indexing_status dataset_id batch_token), Sleep 1])"
proof -
  obtain r s' where g: "serve s (Get_indexing_status dataset_id batch_token) = (r, s')"
    by (cases "serve s (Get_indexing_status dataset_id batch_token)")
  with assms(1) have "status_of r = Some st"
    by (simp add: poll_status_def)
  then obtain ok data rest where "r = Http ok (Indexing_json (data # rest))"
    and "indexing_status data = st"
    using status_of_Some by blast
  with g assms(2) show ?thesis
    by (auto simp: terminal_def)
qed

lemma poll_status_Suc:
  "poll_status serve r (Suc k) s = poll_status serve r k (snd (serve s r))"
  by (simp add: poll_status_def)

lemma polls_append: "polls (j + k) r = polls j r @ polls k r"
  by (induction j) simp_all

lemma sync_running_prefix:
  assumes "\<forall>j<k. \<exists>st. poll_status serve (Get_indexing_status dataset_id batch_token) j s = Some st
                    \<and> \<not> terminal st"
  shows "sync_indexing_status (k + n) serve dataset_id batch_token s =
           emit (polls k (Get_indexing_status dataset_id batch_token))
             (sync_indexing_status n serve dataset_id batch_token
                (poll_state serve (Get_indexing_status dataset_id batch_token) k s))"
  using assms
proof (induction k arbitrary: s)
  case 0
  show ?case by simp
next
  case (Suc k)
  let ?r = "Get_indexing_status dataset_id batch_token"
  from Suc.prems obtain st where st: "poll_status serve ?r 0 s = Some st" "\<not> terminal st"
    by blast
  have "\<forall>j<k. \<exists>st. poll_status serve ?r j (snd (serve s ?r)) = Some st \<and> \<not> terminal st"
  proof (intro allI impI)
    fix j assume "j < k"
    then have "Suc j < Suc k" by simp
    with Suc.prems show "\<exists>st. poll_status serve ?r j (snd (serve s ?r)) = Some st \<and> \<not> terminal st"
      unfolding poll_status_Suc [symmetric] by blast
  qed
  then have "sync_indexing_status (k + n) serve dataset_id batch_token (snd (serve s ?r)) =
           emit (polls k ?r)
             (sync_indexing_status n serve dataset_id batch_token
                (poll_state serve ?r k (snd (serve s ?r))))"
    by (rule Suc.IH)
  with sync_step_running [OF st, of "k + n"] show ?case
    by simp
qed

lemma and_then_assoc:
  "and_then (and_then r k1) k2 = and_then r (\<lambda>x s. and_then (k1 x s) k2)"
proof (cases r rule: prod_cases3)
  case (fields out s tr)
  show ?thesis
  proof (cases out)
    case (Returned x)
    obtain out1 s1 tr1 where k: "k1 x s = (out1, s1, tr1)" by (cases "k1 x s" rule: prod_cases3)
    obtain out2 s2 tr2 where r2: "and_then (k1 x s) k2 = (out2, s2, tr2)"
      by (cases "and_then (k1 x s) k2" rule: prod_cases3)
    show ?thesis
    proof (cases out1)
      case r1: (Returned y)
      obtain out3 s3 tr3 where "k2 y s1 = (out3, s3, tr3)" by (cases "k2 y s1" rule: prod_cases3)
      with fields Returned k r1 show ?thesis by simp
    qed (use fields Returned k in simp_all)
  qed (use fields in simp_all)
qed

lemma embed_loop_append:
  "embed_loop c serve dataset_id force_override (xs @ ys) response_seq s =
     and_then (embed_loop c serve dataset_id force_override xs response_seq s)
       (\<lambda>seq s'. embed_loop c serve dataset_id force_override ys seq s')"
proof (induction xs arbitrary: response_seq s)
  case Nil
  show ?case by simp
next
  case (Cons x xs)
  obtain table_name knowledge_card where x: "x = (table_name, knowledge_card)" by (cases x)
  have "(\<lambda>response. embed_loop c serve dataset_id force_override (xs @ ys)
            (response_seq @ [response])) =
        (\<lambda>response s'. and_then
            (embed_loop c serve dataset_id force_override xs (response_seq @ [response]) s')
            (\<lambda>seq s''. embed_loop c serve dataset_id force_override ys seq s''))"
    by (intro ext) (rule Cons.IH)
  then show ?case
    by (simp add: x and_then_assoc)
qed

lemma embed_knowledge_at:
  assumes "hook_knowledge_dataset n serve db_name s = (Returned dataset_id, s0, tr0)"
    and "embed_loop c serve dataset_id force_override before [] s0 = (Returned response_seq, s1, tr1)"
  shows "embed_knowledge n c serve (before @ (table_name, knowledge_card) # items) db_name
           force_override s =
         emit (tr0 @ tr1)
           (and_then (embed_one c serve dataset_id force_override table_name knowledge_card s1)
              (\<lambda>response s2.
                 and_then (embed_loop c serve dataset_id force_override items
                             (response_seq @ [response]) s2)
                   (\<lambda>_ s3. (Returned None, s3, []))))"
  using assms by (simp add: embed_knowledge_def embed_loop_append and_then_assoc)

lemma embed_one_create_rejected_falsy:
  assumes "serve s (Get_documents dataset_id (Some table_name)) = (Http ok (Listing_json documents), s1)"
    and "\<not> truthy (first_named documents (table_name @ ''.txt''))"
    and "serve s1 (Create_by_text dataset_id (document_preprocess_payload c table_name knowledge_card)) =
           (Http False b, s2)"
  shows "embed_one c serve dataset_id force_override table_name knowledge_card s =
           (Raised HTTPStatusError, s2,
            [Req (Get_documents dataset_id (Some table_name)),
             Req (Create_by_text dataset_id (document_preprocess_payload c table_name knowledge_card))])"
  using assms
  by (cases "first_named documents (table_name @ ''.txt'')")
     (simp_all add: embed_one_def sync_document_id_listing create_rejected)

lemma embed_one_recreate_rejected:
  assumes "serve s (Get_documents dataset_id (Some table_name)) = (Http ok (Listing_json documents), s1)"
    and "first_named documents (table_name @ ''.txt'') = Some document_id"
    and "document_id \<noteq> []"
    and "serve s1 (Delete_document dataset_id document_id) = (Http True b, s2)"
    and "serve s2 (Create_by_text dataset_id (document_preprocess_payload c table_name knowledge_card)) =
           (Http False b', s3)"
  shows "embed_one c serve dataset_id True table_name knowledge_card s =
           (Raised HTTPStatusError, s3,
            [Req (Get_documents dataset_id (Some table_name)),
             Req (Delete_document dataset_id document_id),
             Req (Create_by_text dataset_id (document_preprocess_payload c table_name knowledge_card))])"
  using assms
  by (simp add: embed_one_def sync_document_id_listing delete_accepted create_rejected)

lemma dispatch_empty_identifier:
  assumes "serve s (Get_documents dataset_id (Some table_name)) = (Http ok (Listing_json documents), s1)"
    and "first_named documents (table_name @ ''.txt'') = Some []"
  shows "requests_of (snd (snd (embed_one c serve dataset_id force_override table_name knowledge_card s))) =
              [Get_documents dataset_id (Some table_name),
               Create_by_text dataset_id (document_preprocess_payload c table_name knowledge_card)]"
  using assms by (simp add: embed_one_def sync_document_id_listing requests_of_create_some)

section \<open>The empty mapping\<close>

text \<open>
  Claim C5. For the empty mapping \<^verbatim>\<open>embed_knowledge\<close> writes one log record of level
  error, sends no request at all (the dataset is not resolved, no document is read or
  written), leaves the service as it was and returns at once, whatever the service, the
  dataset name and the override flag are.
\<close>

theorem embed_knowledge_empty:
  "embed_knowledge n c serve [] db_name force_override s = (Returned None, s, [Log ERROR])"
  by (simp add: embed_knowledge_def)

section \<open>A rejected update\<close>

text \<open>
  Claim C4. When the answer to update-by-knowledge_card has an error status, \<^verbatim>\<open>_update_document_by_text\<close>
  writes a log record of level error and returns \<^verbatim>\<open>None\<close> without raising; in the loop of
  \<^verbatim>\<open>embed_knowledge\<close>, for a document that the locator finds (with a non-empty identifier)
  and without override, that \<^verbatim>\<open>None\<close> is appended to the results and the loop goes on
  with the remaining documents from the state the service is then in.
\<close>

theorem update_failure_recovered:
  assumes "serve s (Get_documents dataset_id (Some table_name)) = (Http ok (Listing_json documents), s1)"
    and "first_named documents (table_name @ ''.txt'') = Some document_id"
    and "document_id \<noteq> []"
    and "serve s1 (Update_by_text dataset_id document_id
                      (document_preprocess_payload c table_name knowledge_card)) = (Http False b, s2)"
  shows "update_document_by_text c serve dataset_id document_id table_name knowledge_card s1 =
           (Returned None, s2,
            [Req (Update_by_text dataset_id document_id
                    (document_preprocess_payload c table_name knowledge_card)), Log ERROR])
       \<and> embed_loop c serve dataset_id False ((table_name, knowledge_card) # items) response_seq s =
           emit [Req (Get_documents dataset_id (Some table_name)),
                 Req (Update_by_text dataset_id document_id
                        (document_preprocess_payload c table_name knowledge_card)), Log ERROR]
             (embed_loop c serve dataset_id False items (response_seq @ [None]) s2)"
  using assms by (simp add: embed_one_update_rejected update_rejected)

theorem update_failure_recovered_witness:
  "update_document_by_text c0 (replay Transport_failure) ''d1'' ''doc1'' ''users'' ''id,name''
     [Http False Other_json] =
     (Returned None, [],
      [Req (Update_by_text ''d1'' ''doc1'' (document_preprocess_payload c0 ''users'' ''id,name'')),
       Log ERROR])
   \<and> embed_loop c0 (replay Transport_failure) ''d1'' False [(''users'', ''id,name'')] []
       [Http True (Listing_json [users_doc]), Http False Other_json] =
     (Returned [None], [],
      [Req (Get_documents ''d1'' (Some ''users'')),
       Req (Update_by_text ''d1'' ''doc1'' (document_preprocess_payload c0 ''users'' ''id,name'')),
       Log ERROR])"
proof -
  have listing: "replay Transport_failure
      [Http True (Listing_json [users_doc]), Http False Other_json]
      (Get_documents ''d1'' (Some ''users'')) =
      (Http True (Listing_json [users_doc]), [Http False Other_json])"
    by simp
  have found: "first_named [users_doc] (''users'' @ ''.txt'') = Some ''doc1''"
    by (simp add: users_doc_def)
  have nonempty: "''doc1'' \<noteq> []"
    by simp
  have rejected: "replay Transport_failure [Http False Other_json]
      (Update_by_text ''d1'' ''doc1'' (document_preprocess_payload c0 ''users'' ''id,name'')) =
      (Http False Other_json, [])"
    by simp
  show ?thesis
    using update_failure_recovered [where serve = "replay Transport_failure" and c = c0
        and s = "[Http True (Listing_json [users_doc]), Http False Other_json]"
        and knowledge_card = "''id,name''" and items = "[]" and response_seq = "[]",
        OF listing found nonempty rejected]
    by simp
qed

section \<open>Dispatch for one document\<close>

text \<open>
  Claim C3, as stated, fails: when the locator finds a document named \<^verbatim>\<open>users.txt\<close> whose
  identifier is the empty string, and \<^verbatim>\<open>force_override\<close> is false, no update-by-text is
  sent: \<^verbatim>\<open>if document_id := ...\<close> tests the truth value of the identifier, and the
  document is created as if it were absent.
\<close>

theorem empty_identifier_is_created:
  "first_named [\<lparr>entry_id = '''', entry_name = ''users.txt''\<rparr>] (''users'' @ ''.txt'') = Some ''''
   \<and> embed_one c0 (replay Transport_failure) ''d1'' False ''users'' ''id,name''
       [Http True (Listing_json [\<lparr>entry_id = '''', entry_name = ''users.txt''\<rparr>]),
        Http True (Upload_json udr0)] =
     (Returned (Some udr0), [],
      [Req (Get_documents ''d1'' (Some ''users'')),
       Req (Create_by_text ''d1'' (document_preprocess_payload c0 ''users'' ''id,name''))])"
  by (simp add: embed_one_def sync_document_id_def list_documents_def create_document_by_text_def)

text \<open>
  Claim C3, amended. For one document of the mapping, after the locator's listing
  (\<^verbatim>\<open>keyword=table_name\<close>) has been answered: when no listed document is named
  \<^verbatim>\<open>table_name + ".txt"\<close>, or the first such document has the empty identifier, the
  requests are that listing and one create-by-text; when the first such document has the
  non-empty identifier \<open>document_id\<close> and \<^verbatim>\<open>force_override\<close> is false, the listing and one
  update-by-text on \<open>document_id\<close>; when \<^verbatim>\<open>force_override\<close> is true, the listing, then the
  delete of \<open>document_id\<close>, then the create-by-text, in that order, the create being sent
  once the delete has been answered with a success status (a delete that raises ends the
  call before the create).
\<close>

theorem embed_one_dispatch:
  assumes "serve s (Get_documents dataset_id (Some table_name)) = (Http ok (Listing_json documents), s1)"
  shows "(first_named documents (table_name @ ''.txt'') = None \<longrightarrow>
            requests_of (snd (snd (embed_one c serve dataset_id force_override table_name knowledge_card s))) =
              [Get_documents dataset_id (Some table_name),
               Create_by_text dataset_id (document_preprocess_payload c table_name knowledge_card)])
       \<and> (\<forall>document_id.
            first_named documents (table_name @ ''.txt'') = Some document_id \<and> document_id \<noteq> []
              \<and> \<not> force_override \<longrightarrow>
            requests_of (snd (snd (embed_one c serve dataset_id force_override table_name knowledge_card s))) =
              [Get_documents dataset_id (Some table_name),
               Update_by_text dataset_id document_id (document_preprocess_payload c table_name knowledge_card)])
       \<and> (\<forall>document_id.
            first_named documents (table_name @ ''.txt'') = Some document_id \<and> document_id \<noteq> []
              \<and> force_override \<longrightarrow>
            requests_of (snd (snd (embed_one c serve dataset_id force_override table_name knowledge_card s))) =
              [Get_documents dataset_id (Some table_name), Delete_document dataset_id document_id] @
              (if \<exists>b s2. serve s1 (Delete_document dataset_id document_id) = (Http True b, s2)
               then [Create_by_text dataset_id (document_preprocess_payload c table_name knowledge_card)]
               else []))
       \<and> (first_named documents (table_name @ ''.txt'') = Some [] \<longrightarrow>
            requests_of (snd (snd (embed_one c serve dataset_id force_override table_name knowledge_card s))) =
              [Get_documents dataset_id (Some table_name),
               Create_by_text dataset_id (document_preprocess_payload c table_name knowledge_card)])"
proof (intro conjI allI impI)
  assume "first_named documents (table_name @ ''.txt'') = None"
  then show "requests_of (snd (snd (embed_one c serve dataset_id force_override table_name knowledge_card s))) =
              [Get_documents dataset_id (Some table_name),
               Create_by_text dataset_id (document_preprocess_payload c table_name knowledge_card)]"
    using assms by (simp add: embed_one_def sync_document_id_listing requests_of_create_some)
next
  fix document_id
  assume "first_named documents (table_name @ ''.txt'') = Some document_id \<and> document_id \<noteq> []
              \<and> \<not> force_override"
  then show "requests_of (snd (snd (embed_one c serve dataset_id force_override table_name knowledge_card s))) =
              [Get_documents dataset_id (Some table_name),
               Update_by_text dataset_id document_id (document_preprocess_payload c table_name knowledge_card)]"
    using assms by (simp add: embed_one_def sync_document_id_listing requests_of_update)
next
  fix document_id
  assume a: "first_named documents (table_name @ ''.txt'') = Some document_id \<and> document_id \<noteq> []
              \<and> force_override"
  show "requests_of (snd (snd (embed_one c serve dataset_id force_override table_name knowledge_card s))) =
              [Get_documents dataset_id (Some table_name), Delete_document dataset_id document_id] @
              (if \<exists>b s2. serve s1 (Delete_document dataset_id document_id) = (Http True b, s2)
               then [Create_by_text dataset_id (document_preprocess_payload c table_name knowledge_card)]
               else [])"
  proof (cases "serve s1 (Delete_document dataset_id document_id)")
    case (Pair r s2)
    show ?thesis
    proof (cases r)
      case Transport_failure
      with Pair a assms show ?thesis
        by (simp add: embed_one_def sync_document_id_listing delete_document_def)
    next
      case (Http ok2 b)
      show ?thesis
      proof (cases ok2)
        case True
        with Http Pair a assms show ?thesis
          by (simp add: embed_one_def sync_document_id_listing delete_accepted
              requests_of_create_some)
      next
        case False
        with Http Pair a assms show ?thesis
          by (simp add: embed_one_def sync_document_id_listing delete_rejected)
      qed
    qed
  qed
next
  assume "first_named documents (table_name @ ''.txt'') = Some []"
  with assms
  show "requests_of (snd (snd (embed_one c serve dataset_id force_override table_name knowledge_card s))) =
              [Get_documents dataset_id (Some table_name),
               Create_by_text dataset_id (document_preprocess_payload c table_name knowledge_card)]"
    by (simp add: embed_one_def sync_document_id_listing requests_of_create_some)
qed

theorem embed_one_dispatch_witness:
  "requests_of (snd (snd (embed_one c0 (replay Transport_failure) ''d1'' False ''users'' ''id,name''
       [Http True (Listing_json []), Http True (Upload_json udr0)]))) =
     [Get_documents ''d1'' (Some ''users''),
      Create_by_text ''d1'' (document_preprocess_payload c0 ''users'' ''id,name'')]
   \<and> requests_of (snd (snd (embed_one c0 (replay Transport_failure) ''d1'' False ''users'' ''id,name''
       [Http True (Listing_json [orders_doc, users_doc]), Http True (Upload_json udr0)]))) =
     [Get_documents ''d1'' (Some ''users''),
      Update_by_text ''d1'' ''doc1'' (document_preprocess_payload c0 ''users'' ''id,name'')]
   \<and> requests_of (snd (snd (embed_one c0 (replay Transport_failure) ''d1'' True ''users'' ''id,name''
       [Http True (Listing_json [orders_doc, users_doc]), Http True Other_json,
        Http True (Upload_json udr0)]))) =
     [Get_documents ''d1'' (Some ''users''), Delete_document ''d1'' ''doc1'',
      Create_by_text ''d1'' (document_preprocess_payload c0 ''users'' ''id,name'')]
   \<and> requests_of (snd (snd (embed_one c0 (replay Transport_failure) ''d1'' False ''users'' ''id,name''
       [Http True (Listing_json [\<lparr>entry_id = [], entry_name = ''users.txt''\<rparr>]),
        Http True (Upload_json udr0)]))) =
     [Get_documents ''d1'' (Some ''users''),
      Create_by_text ''d1'' (document_preprocess_payload c0 ''users'' ''id,name'')]"
proof -
  have unnamed: "replay Transport_failure
      [Http True (Listing_json [\<lparr>entry_id = [], entry_name = ''users.txt''\<rparr>]),
       Http True (Upload_json udr0)]
      (Get_documents ''d1'' (Some ''users'')) =
      (Http True (Listing_json [\<lparr>entry_id = [], entry_name = ''users.txt''\<rparr>]),
       [Http True (Upload_json udr0)])"
    by simp
  have absent: "replay Transport_failure [Http True (Listing_json []), Http True (Upload_json udr0)]
      (Get_documents ''d1'' (Some ''users'')) =
      (Http True (Listing_json []), [Http True (Upload_json udr0)])"
    by simp
  have present: "replay Transport_failure
      [Http True (Listing_json [orders_doc, users_doc]), Http True (Upload_json udr0)]
      (Get_documents ''d1'' (Some ''users'')) =
      (Http True (Listing_json [orders_doc, users_doc]), [Http True (Upload_json udr0)])"
    by simp
  have override: "replay Transport_failure
      [Http True (Listing_json [orders_doc, users_doc]), Http True Other_json,
       Http True (Upload_json udr0)]
      (Get_documents ''d1'' (Some ''users'')) =
      (Http True (Listing_json [orders_doc, users_doc]),
       [Http True Other_json, Http True (Upload_json udr0)])"
    by simp
  show ?thesis
    using embed_one_dispatch [where serve = "replay Transport_failure" and c = c0
        and s = "[Http True (Listing_json []), Http True (Upload_json udr0)]"
        and knowledge_card = "''id,name''" and force_override = False, OF absent]
      embed_one_dispatch [where serve = "replay Transport_failure" and c = c0
        and s = "[Http True (Listing_json [orders_doc, users_doc]), Http True (Upload_json udr0)]"
        and knowledge_card = "''id,name''" and force_override = False, OF present]
      embed_one_dispatch [where serve = "replay Transport_failure" and c = c0
        and s = "[Http True (Listing_json [orders_doc, users_doc]), Http True Other_json,
                  Http True (Upload_json udr0)]"
        and knowledge_card = "''id,name''" and force_override = True, OF override]
      embed_one_dispatch [where serve = "replay Transport_failure" and c = c0
        and s = "[Http True (Listing_json [\<lparr>entry_id = [], entry_name = ''users.txt''\<rparr>]),
                  Http True (Upload_json udr0)]"
        and knowledge_card = "''id,name''" and force_override = False, OF unnamed]
    by (simp add: users_doc_def orders_doc_def)
qed


section \<open>Failures during the batch\<close>

text \<open>
  Claim C1, as stated, fails: with two documents, neither present, and an error status
  for the first create-by-text, \<^verbatim>\<open>embed_knowledge\<close> raises \<^verbatim>\<open>HTTPStatusError\<close> after the
  requests for the first document; nothing is sent for the second one, although the
  service would have answered.
\<close>

theorem create_failure_aborts_batch:
  "embed_knowledge 1 c0 (replay Transport_failure)
     [(''users'', ''id,name''), (''orders'', ''id,total'')] ''catalog'' False
     [Http True (Listing_json [catalog]), Http True (Listing_json []), Http False Other_json,
      Http True (Listing_json []), Http True (Upload_json udr0)] =
   (Raised HTTPStatusError,
    [Http True (Listing_json []), Http True (Upload_json udr0)],
    [Req Get_datasets, Log SUCCESS, Req (Get_documents ''d1'' (Some ''users'')),
     Req (Create_by_text ''d1'' (document_preprocess_payload c0 ''users'' ''id,name''))])"
  by (simp add: embed_knowledge_def embed_one_def sync_document_id_def list_documents_def
      create_document_by_text_def catalog_def)


text \<open>
  Claim C1, amended. In \<^verbatim>\<open>embed_knowledge\<close> a document's failure is recovered on the
  archived-update path only. Let the dataset be resolved and the documents \<open>before\<close> be
  processed, and consider the next document of the mapping. Whatever exception its
  processing raises is raised by \<^verbatim>\<open>embed_knowledge\<close>, with no request sent for the documents
  after it. After the locator's listing, that is \<^verbatim>\<open>HTTPStatusError\<close> when an error status
  answers the create-by-text of a document that is absent (or found with an empty
  identifier), the delete of a found document under \<^verbatim>\<open>force_override\<close>, or the
  create-by-text that follows an accepted delete under \<^verbatim>\<open>force_override\<close>. When an error
  status answers the update-by-text of a found document, \<^verbatim>\<open>None\<close> is recorded for it and
  the loop goes on with the documents after it.
\<close>

theorem only_update_failure_is_recovered:
  assumes "hook_knowledge_dataset n serve db_name s = (Returned dataset_id, s0, tr0)"
    and "embed_loop c serve dataset_id force_override before [] s0 = (Returned response_seq, s1, tr1)"
  shows "(\<forall>e s2 tr2.
            embed_one c serve dataset_id force_override table_name knowledge_card s1 = (Raised e, s2, tr2) \<longrightarrow>
            embed_knowledge n c serve (before @ (table_name, knowledge_card) # items) db_name
              force_override s = (Raised e, s2, tr0 @ tr1 @ tr2))
       \<and> (\<forall>ok documents s1'.
            serve s1 (Get_documents dataset_id (Some table_name)) =
              (Http ok (Listing_json documents), s1') \<longrightarrow>
            (\<forall>b s2.
               \<not> truthy (first_named documents (table_name @ ''.txt''))
               \<and> serve s1' (Create_by_text dataset_id
                               (document_preprocess_payload c table_name knowledge_card)) =
                   (Http False b, s2) \<longrightarrow>
               embed_knowledge n c serve (before @ (table_name, knowledge_card) # items) db_name
                 force_override s =
                 (Raised HTTPStatusError, s2,
                  tr0 @ tr1 @
                  [Req (Get_documents dataset_id (Some table_name)),
                   Req (Create_by_text dataset_id
                          (document_preprocess_payload c table_name knowledge_card))]))
          \<and> (\<forall>document_id b s2.
               first_named documents (table_name @ ''.txt'') = Some document_id \<and> document_id \<noteq> []
               \<and> force_override
               \<and> serve s1' (Delete_document dataset_id document_id) = (Http False b, s2) \<longrightarrow>
               embed_knowledge n c serve (before @ (table_name, knowledge_card) # items) db_name
                 force_override s =
                 (Raised HTTPStatusError, s2,
                  tr0 @ tr1 @
                  [Req (Get_documents dataset_id (Some table_name)),
                   Req (Delete_document dataset_id document_id)]))
          \<and> (\<forall>document_id b s2 b' s3.
               first_named documents (table_name @ ''.txt'') = Some document_id \<and> document_id \<noteq> []
               \<and> force_override
               \<and> serve s1' (Delete_document dataset_id document_id) = (Http True b, s2)
               \<and> serve s2 (Create_by_text dataset_id
                              (document_preprocess_payload c table_name knowledge_card)) =
                   (Http False b', s3) \<longrightarrow>
               embed_knowledge n c serve (before @ (table_name, knowledge_card) # items) db_name
                 force_override s =
                 (Raised HTTPStatusError, s3,
                  tr0 @ tr1 @
                  [Req (Get_documents dataset_id (Some table_name)),
                   Req (Delete_document dataset_id document_id),
                   Req (Create_by_text dataset_id
                          (document_preprocess_payload c table_name knowledge_card))]))
          \<and> (\<forall>document_id b s2.
               first_named documents (table_name @ ''.txt'') = Some document_id \<and> document_id \<noteq> []
               \<and> \<not> force_override
               \<and> serve s1' (Update_by_text dataset_id document_id
                               (document_preprocess_payload c table_name knowledge_card)) =
                   (Http False b, s2) \<longrightarrow>
               embed_knowledge n c serve (before @ (table_name, knowledge_card) # items) db_name
                 force_override s =
                 emit (tr0 @ tr1 @
                       [Req (Get_documents dataset_id (Some table_name)),
                        Req (Update_by_text dataset_id document_id
                               (document_preprocess_payload c table_name knowledge_card)),
                        Log ERROR])
                   (and_then (embed_loop c serve dataset_id force_override items
                                (response_seq @ [None]) s2)
                      (\<lambda>_ s3. (Returned None, s3, [])))))"
proof -
  note at = embed_knowledge_at [OF assms, of table_name knowledge_card items]
  show ?thesis
  proof (intro conjI allI impI)
    fix e s2 tr2
    assume "embed_one c serve dataset_id force_override table_name knowledge_card s1 = (Raised e, s2, tr2)"
    with at show "embed_knowledge n c serve (before @ (table_name, knowledge_card) # items) db_name
              force_override s = (Raised e, s2, tr0 @ tr1 @ tr2)"
      by simp
  next
    fix ok documents s1' b s2
    assume l: "serve s1 (Get_documents dataset_id (Some table_name)) =
              (Http ok (Listing_json documents), s1')"
      and "\<not> truthy (first_named documents (table_name @ ''.txt''))
               \<and> serve s1' (Create_by_text dataset_id
                               (document_preprocess_payload c table_name knowledge_card)) =
                   (Http False b, s2)"
    then have "embed_one c serve dataset_id force_override table_name knowledge_card s1 =
           (Raised HTTPStatusError, s2,
            [Req (Get_documents dataset_id (Some table_name)),
             Req (Create_by_text dataset_id (document_preprocess_payload c table_name knowledge_card))])"
      by (intro embed_one_create_rejected_falsy [where serve = serve and s = s1]) auto
    with at show "embed_knowledge n c serve (before @ (table_name, knowledge_card) # items) db_name
                 force_override s =
                 (Raised HTTPStatusError, s2,
                  tr0 @ tr1 @
                  [Req (Get_documents dataset_id (Some table_name)),
                   Req (Create_by_text dataset_id
                          (document_preprocess_payload c table_name knowledge_card))])"
      by simp
  next
    fix ok documents s1' document_id b s2
    assume l: "serve s1 (Get_documents dataset_id (Some table_name)) =
              (Http ok (Listing_json documents), s1')"
      and a: "first_named documents (table_name @ ''.txt'') = Some document_id \<and> document_id \<noteq> []
               \<and> force_override
               \<and> serve s1' (Delete_document dataset_id document_id) = (Http False b, s2)"
    then have "embed_one c serve dataset_id True table_name knowledge_card s1 =
           (Raised HTTPStatusError, s2,
            [Req (Get_documents dataset_id (Some table_name)),
             Req (Delete_document dataset_id document_id)])"
      by (intro embed_one_delete_rejected [where serve = serve and s = s1]) auto
    with at a show "embed_knowledge n c serve (before @ (table_name, knowledge_card) # items) db_name
                 force_override s =
                 (Raised HTTPStatusError, s2,
                  tr0 @ tr1 @
                  [Req (Get_documents dataset_id (Some table_name)),
                   Req (Delete_document dataset_id document_id)])"
      by simp
  next
    fix ok documents s1' document_id b s2 b' s3
    assume l: "serve s1 (Get_documents dataset_id (Some table_name)) =
              (Http ok (Listing_json documents), s1')"
      and a: "first_named documents (table_name @ ''.txt'') = Some document_id \<and> document_id \<noteq> []
               \<and> force_override
               \<and> serve s1' (Delete_document dataset_id document_id) = (Http True b, s2)
               \<and> serve s2 (Create_by_text dataset_id
                              (document_preprocess_payload c table_name knowledge_card)) =
                   (Http False b', s3)"
    then have "embed_one c serve dataset_id True table_name knowledge_card s1 =
           (Raised HTTPStatusError, s3,
            [Req (Get_documents dataset_id (Some table_name)),
             Req (Delete_document dataset_id document_id),
             Req (Create_by_text dataset_id (document_preprocess_payload c table_name knowledge_card))])"
      by (intro embed_one_recreate_rejected [where serve = serve and s = s1]) auto
    with at a show "embed_knowledge n c serve (before @ (table_name, knowledge_card) # items) db_name
                 force_override s =
                 (Raised HTTPStatusError, s3,
                  tr0 @ tr1 @
                  [Req (Get_documents dataset_id (Some table_name)),
                   Req (Delete_document dataset_id document_id),
                   Req (Create_by_text dataset_id
                          (document_preprocess_payload c table_name knowledge_card))])"
      by simp
  next
    fix ok documents s1' document_id b s2
    assume l: "serve s1 (Get_documents dataset_id (Some table_name)) =
              (Http ok (Listing_json documents), s1')"
      and a: "first_named documents (table_name @ ''.txt'') = Some document_id \<and> document_id \<noteq> []
               \<and> \<not> force_override
               \<and> serve s1' (Update_by_text dataset_id document_id
                               (document_preprocess_payload c table_name knowledge_card)) =
                   (Http False b, s2)"
    then have "embed_one c serve dataset_id False table_name knowledge_card s1 =
           (Returned None, s2,
            [Req (Get_documents dataset_id (Some table_name)),
             Req (Update_by_text dataset_id document_id
                    (document_preprocess_payload c table_name knowledge_card)), Log ERROR])"
      by (intro embed_one_update_rejected [where serve = serve and s = s1]) auto
    with at a show "embed_knowledge n c serve (before @ (table_name, knowledge_card) # items) db_name
                 force_override s =
                 emit (tr0 @ tr1 @
                       [Req (Get_documents dataset_id (Some table_name)),
                        Req (Update_by_text dataset_id document_id
                               (document_preprocess_payload c table_name knowledge_card)),
                        Log ERROR])
                   (and_then (embed_loop c serve dataset_id force_override items
                                (response_seq @ [None]) s2)
                      (\<lambda>_ s3. (Returned None, s3, [])))"
      by simp
  qed
qed

theorem only_update_failure_is_recovered_witness:
  "embed_knowledge (Suc 0) c0 (replay Transport_failure)
     [(''orders'', ''id,total''), (''users'', ''id,name''), (''items'', ''id'')] ''catalog'' False
     [Http True (Listing_json [catalog]),
      Http True (Listing_json []), Http True (Upload_json udr0),
      Http True (Listing_json []), Http False Other_json,
      Http True (Listing_json []), Http True (Upload_json udr0)] =
   (Raised HTTPStatusError, [Http True (Listing_json []), Http True (Upload_json udr0)],
    [Req Get_datasets, Log SUCCESS,
     Req (Get_documents ''d1'' (Some ''orders'')),
     Req (Create_by_text ''d1'' (document_preprocess_payload c0 ''orders'' ''id,total'')),
     Req (Get_documents ''d1'' (Some ''users'')),
     Req (Create_by_text ''d1'' (document_preprocess_payload c0 ''users'' ''id,name''))])
 \<and> embed_knowledge (Suc 0) c0 (replay Transport_failure)
     [(''users'', ''id,name''), (''items'', ''id'')] ''catalog'' True
     [Http True (Listing_json [catalog]),
      Http True (Listing_json [users_doc]), Http False Other_json,
      Http True (Listing_json []), Http True (Upload_json udr0)] =
   (Raised HTTPStatusError, [Http True (Listing_json []), Http True (Upload_json udr0)],
    [Req Get_datasets, Log SUCCESS,
     Req (Get_documents ''d1'' (Some ''users'')), Req (Delete_document ''d1'' ''doc1'')])
 \<and> embed_knowledge (Suc 0) c0 (replay Transport_failure)
     [(''users'', ''id,name''), (''items'', ''id'')] ''catalog'' True
     [Http True (Listing_json [catalog]),
      Http True (Listing_json [users_doc]), Http True Other_json, Http False Other_json,
      Http True (Listing_json []), Http True (Upload_json udr0)] =
   (Raised HTTPStatusError, [Http True (Listing_json []), Http True (Upload_json udr0)],
    [Req Get_datasets, Log SUCCESS,
     Req (Get_documents ''d1'' (Some ''users'')), Req (Delete_document ''d1'' ''doc1''),
     Req (Create_by_text ''d1'' (document_preprocess_payload c0 ''users'' ''id,name''))])
 \<and> embed_knowledge (Suc 0) c0 (replay Transport_failure)
     [(''users'', ''id,name''), (''items'', ''id'')] ''catalog'' False
     [Http True (Listing_json [catalog]),
      Http True (Listing_json [users_doc]), Http False Other_json,
      Http True (Listing_json []), Http True (Upload_json udr0)] =
   (Returned None, [],
    [Req Get_datasets, Log SUCCESS,
     Req (Get_documents ''d1'' (Some ''users'')),
     Req (Update_by_text ''d1'' ''doc1'' (document_preprocess_payload c0 ''users'' ''id,name'')),
     Log ERROR,
     Req (Get_documents ''d1'' (Some ''items'')),
     Req (Create_by_text ''d1'' (document_preprocess_payload c0 ''items'' ''id''))])
 \<and> embed_knowledge (Suc 0) c0 (replay Transport_failure)
     [(''users'', ''id,name''), (''items'', ''id'')] ''catalog'' False
     [Http True (Listing_json [catalog]), Transport_failure,
      Http True (Listing_json []), Http True (Upload_json udr0)] =
   (Raised TransportError, [Http True (Listing_json []), Http True (Upload_json udr0)],
    [Req Get_datasets, Log SUCCESS, Req (Get_documents ''d1'' (Some ''users''))])"
proof -
  let ?tail = "[Http True (Listing_json []), Http True (Upload_json udr0)]"
  have resolved: "hook_knowledge_dataset (Suc 0) (replay Transport_failure) ''catalog''
      (Http True (Listing_json [catalog]) # rest) = (Returned ''d1'', rest, [Req Get_datasets, Log SUCCESS])"
    for rest
    by (simp add: catalog_def)
  have none_before: "embed_loop c0 (replay Transport_failure) ''d1'' force [] [] rest =
      (Returned [], rest, [])" for force rest
    by simp
  have orders_before: "embed_loop c0 (replay Transport_failure) ''d1'' False
      [(''orders'', ''id,total'')] []
      (Http True (Listing_json []) # Http True (Upload_json udr0) # rest) =
      (Returned [Some udr0], rest,
       [Req (Get_documents ''d1'' (Some ''orders'')),
        Req (Create_by_text ''d1'' (document_preprocess_payload c0 ''orders'' ''id,total''))])"
    for rest
    by (simp add: embed_one_def sync_document_id_def list_documents_def create_document_by_text_def)
  show ?thesis
    using
      only_update_failure_is_recovered [where serve = "replay Transport_failure" and c = c0
        and table_name = "''users''" and knowledge_card = "''id,name''"
        and items = "[(''items'', ''id'')]"
        and ?s1.0 = "Http True (Listing_json []) # Http False Other_json # ?tail",
        OF resolved orders_before]
      only_update_failure_is_recovered [where serve = "replay Transport_failure" and c = c0
        and table_name = "''users''" and knowledge_card = "''id,name''"
        and items = "[(''items'', ''id'')]" and force_override = True
        and ?s1.0 = "Http True (Listing_json [users_doc]) # Http False Other_json # ?tail",
        OF resolved none_before]
      only_update_failure_is_recovered [where serve = "replay Transport_failure" and c = c0
        and table_name = "''users''" and knowledge_card = "''id,name''"
        and items = "[(''items'', ''id'')]" and force_override = True
        and ?s1.0 = "Http True (Listing_json [users_doc]) # Http True Other_json
                       # Http False Other_json # ?tail",
        OF resolved none_before]
      only_update_failure_is_recovered [where serve = "replay Transport_failure" and c = c0
        and table_name = "''users''" and knowledge_card = "''id,name''"
        and items = "[(''items'', ''id'')]" and force_override = False
        and ?s1.0 = "Http True (Listing_json [users_doc]) # Http False Other_json # ?tail",
        OF resolved none_before]
      only_update_failure_is_recovered [where serve = "replay Transport_failure" and c = c0
        and table_name = "''users''" and knowledge_card = "''id,name''"
        and items = "[(''items'', ''id'')]" and force_override = False
        and ?s1.0 = "Transport_failure # ?tail",
        OF resolved none_before]
    by (simp add: users_doc_def catalog_def embed_knowledge_def embed_one_def
        sync_document_id_def list_documents_def create_document_by_text_def
        update_document_by_text_def delete_document_def)
qed

section \<open>What the entry point returns\<close>

text \<open>
  Claim C7, as stated, fails: for a mapping of one document, created without error,
  \<^verbatim>\<open>embed_knowledge\<close> returns \<^verbatim>\<open>None\<close>, not a sequence of one result.
\<close>

theorem embed_knowledge_returns_none:
  "embed_knowledge 1 c0 (replay Transport_failure) [(''users'', ''id,name'')] ''catalog'' False
     [Http True (Listing_json [catalog]), Http True (Listing_json []),
      Http True (Upload_json udr0)] =
   (Returned None, [],
    [Req Get_datasets, Log SUCCESS, Req (Get_documents ''d1'' (Some ''users'')),
     Req (Create_by_text ''d1'' (document_preprocess_payload c0 ''users'' ''id,name''))])"
  by (simp add: embed_knowledge_def embed_one_def sync_document_id_def list_documents_def
      create_document_by_text_def catalog_def)


text \<open>
  Claim C7, amended. For every non-empty mapping, once the dataset is resolved, the loop
  either ends, having collected in \<^verbatim>\<open>response_seq\<close> one entry per document of the mapping,
  and \<^verbatim>\<open>embed_knowledge\<close> then returns \<^verbatim>\<open>None\<close> to its caller (the collected sequence is
  dropped), or it raises and \<^verbatim>\<open>embed_knowledge\<close> raises the same error.
\<close>

theorem embed_knowledge_collects_returns_none:
  assumes "table_to_knowledge \<noteq> []"
    and "hook_knowledge_dataset n serve db_name s = (Returned dataset_id, s1, tr1)"
  shows "(\<exists>response_seq s2 tr2.
            embed_loop c serve dataset_id force_override table_to_knowledge [] s1 =
              (Returned response_seq, s2, tr2)
            \<and> length response_seq = length table_to_knowledge
            \<and> embed_knowledge n c serve table_to_knowledge db_name force_override s =
                (Returned None, s2, tr1 @ tr2))
       \<or> (\<exists>e s2 tr2.
            embed_loop c serve dataset_id force_override table_to_knowledge [] s1 =
              (Raised e, s2, tr2)
            \<and> embed_knowledge n c serve table_to_knowledge db_name force_override s =
                (Raised e, s2, tr1 @ tr2))"
proof -
  obtain out s2 tr2 where loop:
    "embed_loop c serve dataset_id force_override table_to_knowledge [] s1 = (out, s2, tr2)"
    by (cases "embed_loop c serve dataset_id force_override table_to_knowledge [] s1")
  show ?thesis
  proof (cases out)
    case (Returned response_seq)
    with loop embed_loop_collects [of c serve dataset_id force_override table_to_knowledge "[]" s1
        response_seq s2 tr2]
    have "length response_seq = length table_to_knowledge" by simp
    with loop Returned assms show ?thesis by (simp add: embed_knowledge_def)
  next
    case (Raised e)
    with loop assms show ?thesis by (simp add: embed_knowledge_def)
  next
    case Out_of_fuel
    with loop embed_loop_not_out_of_fuel [of c serve dataset_id force_override
        table_to_knowledge "[]" s1]
    show ?thesis by simp
  qed
qed


theorem embed_knowledge_collects_returns_none_witness:
  "embed_loop c0 (replay Transport_failure) ''d1'' False
     [(''users'', ''id,name''), (''orders'', ''id,total'')] []
     [Http True (Listing_json [users_doc]), Http False Other_json,
      Http True (Listing_json []), Http True (Upload_json udr0)] =
   (Returned [None, Some udr0], [],
    [Req (Get_documents ''d1'' (Some ''users'')),
     Req (Update_by_text ''d1'' ''doc1'' (document_preprocess_payload c0 ''users'' ''id,name'')),
     Log ERROR,
     Req (Get_documents ''d1'' (Some ''orders'')),
     Req (Create_by_text ''d1'' (document_preprocess_payload c0 ''orders'' ''id,total''))])
 \<and> embed_knowledge (Suc 0) c0 (replay Transport_failure)
     [(''users'', ''id,name''), (''orders'', ''id,total'')] ''catalog'' False
     [Http True (Listing_json [catalog]),
      Http True (Listing_json [users_doc]), Http False Other_json,
      Http True (Listing_json []), Http True (Upload_json udr0)] =
   (Returned None, [],
    [Req Get_datasets, Log SUCCESS,
     Req (Get_documents ''d1'' (Some ''users'')),
     Req (Update_by_text ''d1'' ''doc1'' (document_preprocess_payload c0 ''users'' ''id,name'')),
     Log ERROR,
     Req (Get_documents ''d1'' (Some ''orders'')),
     Req (Create_by_text ''d1'' (document_preprocess_payload c0 ''orders'' ''id,total''))])"
proof -
  have nonempty: "[(''users'', ''id,name''), (''orders'', ''id,total'')] \<noteq> []"
    by simp
  have resolved: "hook_knowledge_dataset (Suc 0) (replay Transport_failure) ''catalog''
     [Http True (Listing_json [catalog]),
      Http True (Listing_json [users_doc]), Http False Other_json,
      Http True (Listing_json []), Http True (Upload_json udr0)] =
     (Returned ''d1'',
      [Http True (Listing_json [users_doc]), Http False Other_json,
       Http True (Listing_json []), Http True (Upload_json udr0)],
      [Req Get_datasets, Log SUCCESS])"
    by (simp add: catalog_def)
  show ?thesis
    using embed_knowledge_collects_returns_none [where serve = "replay Transport_failure"
        and c = c0 and force_override = False, OF nonempty resolved]
    by (simp add: embed_knowledge_def embed_one_def sync_document_id_def list_documents_def
        create_document_by_text_def update_document_by_text_def users_doc_def catalog_def)
qed

section \<open>Dataset resolution\<close>

text \<open>
  Claim C2, as stated, fails: when the first two listings lack the name and the third has
  it, \<^verbatim>\<open>_hook_knowledge_dataset\<close> sends two create-dataset requests and lists three times
  before it returns.
\<close>

theorem hook_creates_twice:
  "hook_knowledge_dataset 3 (replay Transport_failure) ''catalog''
     [Http True (Listing_json []), Http True Other_json,
      Http True (Listing_json []), Http True Other_json,
      Http True (Listing_json [catalog])] =
   (Returned ''d1'', [],
    [Req Get_datasets, Log WARNING, Req (Post_dataset ''catalog''), Log SUCCESS,
     Req Get_datasets, Log WARNING, Req (Post_dataset ''catalog''), Log SUCCESS,
     Req Get_datasets, Log SUCCESS])"
  by (simp add: eval_nat_numeral catalog_def)


text \<open>
  Claim C2, amended. \<^verbatim>\<open>_hook_knowledge_dataset\<close> has no bound on its retries: each time the
  listing lacks the name it sends one create-dataset request and resolves again. Against
  a service whose listing never contains the name (and that answers each create with
  JSON), it does not return: for every \<open>n\<close>, after \<open>n\<close> rounds it has sent \<open>n\<close> listings and
  \<open>n\<close> create-dataset requests and is about to list again.
\<close>

theorem hook_retries_without_bound:
  assumes never: "\<forall>s. \<exists>ok datasets s'. serve s Get_datasets = (Http ok (Listing_json datasets), s')
                      \<and> first_named datasets db_name = None"
    and created: "\<forall>s. \<exists>ok b s'. serve s (Post_dataset db_name) = (Http ok b, s') \<and> b \<noteq> Not_json"
  shows "fst (hook_knowledge_dataset n serve db_name s) = Out_of_fuel
       \<and> requests_of (snd (snd (hook_knowledge_dataset n serve db_name s))) = rounds n db_name"
proof (induction n arbitrary: s)
  case 0
  show ?case by simp
next
  case (Suc n)
  from never obtain ok datasets s1 where
    l: "serve s Get_datasets = (Http ok (Listing_json datasets), s1)"
    and a: "first_named datasets db_name = None"
    by blast
  from created obtain ok2 b2 s2 where
    p: "serve s1 (Post_dataset db_name) = (Http ok2 b2, s2)" and j: "b2 \<noteq> Not_json"
    by blast
  have "hook_knowledge_dataset (Suc n) serve db_name s =
           emit [Req Get_datasets, Log WARNING, Req (Post_dataset db_name), Log SUCCESS]
             (hook_knowledge_dataset n serve db_name s2)"
    using l a p j by (rule hook_not_listed)
  with Suc.IH [of s2] show ?case by simp
qed


theorem hook_retries_without_bound_witness:
  "fst (hook_knowledge_dataset 3 (by_request (\<lambda>r. Http True (Listing_json []))) ''catalog'' ())
     = Out_of_fuel
   \<and> requests_of (snd (snd (hook_knowledge_dataset 3
         (by_request (\<lambda>r. Http True (Listing_json []))) ''catalog'' ()))) =
     [Get_datasets, Post_dataset ''catalog'', Get_datasets, Post_dataset ''catalog'',
      Get_datasets, Post_dataset ''catalog'']"
proof -
  have never: "\<forall>s. \<exists>ok datasets s'.
      by_request (\<lambda>r. Http True (Listing_json [])) s Get_datasets =
        (Http ok (Listing_json datasets), s') \<and> first_named datasets ''catalog'' = None"
    by (auto simp: by_request_def)
  have created: "\<forall>s. \<exists>ok b s'.
      by_request (\<lambda>r. Http True (Listing_json [])) s (Post_dataset ''catalog'') =
        (Http ok b, s') \<and> b \<noteq> Not_json"
    by (auto simp: by_request_def)
  show ?thesis
    using hook_retries_without_bound [where serve = "by_request (\<lambda>r. Http True (Listing_json []))"
        and db_name = "''catalog''" and n = 3 and s = "()", OF never created]
    by (simp add: eval_nat_numeral)
qed


text \<open>
  Claim C9, as stated, fails: the service's answers to the listing may differ between the
  two resolutions. Here the first resolution returns \<^verbatim>\<open>d1\<close>; the next listing is empty, so
  the second resolution sends a create-dataset request and returns \<^verbatim>\<open>d2\<close>.
\<close>

theorem resolving_twice_differs:
  "hook_knowledge_dataset (Suc 0) (replay Transport_failure) ''catalog''
     [Http True (Listing_json [catalog]), Http True (Listing_json []), Http True Other_json,
      Http True (Listing_json [\<lparr>entry_id = ''d2'', entry_name = ''catalog''\<rparr>])] =
     (Returned ''d1'',
      [Http True (Listing_json []), Http True Other_json,
       Http True (Listing_json [\<lparr>entry_id = ''d2'', entry_name = ''catalog''\<rparr>])],
      [Req Get_datasets, Log SUCCESS])
   \<and> hook_knowledge_dataset (Suc (Suc 0)) (replay Transport_failure) ''catalog''
      [Http True (Listing_json []), Http True Other_json,
       Http True (Listing_json [\<lparr>entry_id = ''d2'', entry_name = ''catalog''\<rparr>])] =
     (Returned ''d2'', [],
      [Req Get_datasets, Log WARNING, Req (Post_dataset ''catalog''), Log SUCCESS,
       Req Get_datasets, Log SUCCESS])"
  by (simp add: catalog_def)

text \<open>
  Claim C9, amended. Against a service whose state is not changed by listing the datasets:
  whenever \<^verbatim>\<open>_hook_knowledge_dataset\<close> returns an identifier, a second call for the same
  name, from the state the first one left, returns the same identifier after one listing,
  with no create-dataset request, and leaves the service as it was. And the first call
  does return, after at most one create-dataset request, when the listing is answered
  with a list and, in case the name is not in it, the create is answered with JSON and
  the listing then has the name.
\<close>

theorem hook_twice_same_dataset:
  assumes pure: "\<forall>s. snd (serve s Get_datasets) = s"
  shows "(\<forall>n dataset_id s1 tr1.
            hook_knowledge_dataset n serve db_name s = (Returned dataset_id, s1, tr1) \<longrightarrow>
            hook_knowledge_dataset (Suc m) serve db_name s1 =
              (Returned dataset_id, s1, [Req Get_datasets, Log SUCCESS]))
       \<and> ((\<exists>ok datasets. fst (serve s Get_datasets) = Http ok (Listing_json datasets)
              \<and> (first_named datasets db_name = None \<longrightarrow>
                   (\<exists>ok2 b2 s2 ok3 datasets2 dataset_id.
                      serve s (Post_dataset db_name) = (Http ok2 b2, s2) \<and> b2 \<noteq> Not_json
                      \<and> fst (serve s2 Get_datasets) = Http ok3 (Listing_json datasets2)
                      \<and> first_named datasets2 db_name = Some dataset_id))) \<longrightarrow>
          (\<exists>dataset_id s1 tr1.
             hook_knowledge_dataset (Suc (Suc n)) serve db_name s = (Returned dataset_id, s1, tr1)
             \<and> length (filter (\<lambda>r. r = Post_dataset db_name) (requests_of tr1)) \<le> 1
             \<and> hook_knowledge_dataset (Suc m) serve db_name s1 =
                 (Returned dataset_id, s1, [Req Get_datasets, Log SUCCESS])))"
proof (intro conjI allI impI)
  fix k dataset_id s1 tr1
  assume first: "hook_knowledge_dataset k serve db_name s = (Returned dataset_id, s1, tr1)"
  from hook_returned_from_listing [OF first] obtain s0 ok datasets where
    l: "serve s0 Get_datasets = (Http ok (Listing_json datasets), s1)"
    and f: "first_named datasets db_name = Some dataset_id"
    by blast
  from pure l have "s1 = s0"
    by (metis snd_conv)
  with l f show "hook_knowledge_dataset (Suc m) serve db_name s1 =
              (Returned dataset_id, s1, [Req Get_datasets, Log SUCCESS])"
    by simp
next
  assume "\<exists>ok datasets. fst (serve s Get_datasets) = Http ok (Listing_json datasets)
              \<and> (first_named datasets db_name = None \<longrightarrow>
                   (\<exists>ok2 b2 s2 ok3 datasets2 dataset_id.
                      serve s (Post_dataset db_name) = (Http ok2 b2, s2) \<and> b2 \<noteq> Not_json
                      \<and> fst (serve s2 Get_datasets) = Http ok3 (Listing_json datasets2)
                      \<and> first_named datasets2 db_name = Some dataset_id))"
  then obtain ok where "\<exists>datasets. fst (serve s Get_datasets) = Http ok (Listing_json datasets)
              \<and> (first_named datasets db_name = None \<longrightarrow>
                   (\<exists>ok2 b2 s2 ok3 datasets2 dataset_id.
                      serve s (Post_dataset db_name) = (Http ok2 b2, s2) \<and> b2 \<noteq> Not_json
                      \<and> fst (serve s2 Get_datasets) = Http ok3 (Listing_json datasets2)
                      \<and> first_named datasets2 db_name = Some dataset_id))" ..
  then obtain datasets where both: "fst (serve s Get_datasets) = Http ok (Listing_json datasets)
              \<and> (first_named datasets db_name = None \<longrightarrow>
                   (\<exists>ok2 b2 s2 ok3 datasets2 dataset_id.
                      serve s (Post_dataset db_name) = (Http ok2 b2, s2) \<and> b2 \<noteq> Not_json
                      \<and> fst (serve s2 Get_datasets) = Http ok3 (Listing_json datasets2)
                      \<and> first_named datasets2 db_name = Some dataset_id))" ..
  from both have l0: "fst (serve s Get_datasets) = Http ok (Listing_json datasets)" ..
  from both have vis: "first_named datasets db_name = None \<longrightarrow>
                   (\<exists>ok2 b2 s2 ok3 datasets2 dataset_id.
                      serve s (Post_dataset db_name) = (Http ok2 b2, s2) \<and> b2 \<noteq> Not_json
                      \<and> fst (serve s2 Get_datasets) = Http ok3 (Listing_json datasets2)
                      \<and> first_named datasets2 db_name = Some dataset_id)" ..
  from l0 pure have l: "serve s Get_datasets = (Http ok (Listing_json datasets), s)"
    by (metis prod.collapse)
  show "\<exists>dataset_id s1 tr1.
             hook_knowledge_dataset (Suc (Suc n)) serve db_name s = (Returned dataset_id, s1, tr1)
             \<and> length (filter (\<lambda>r. r = Post_dataset db_name) (requests_of tr1)) \<le> 1
             \<and> hook_knowledge_dataset (Suc m) serve db_name s1 =
                 (Returned dataset_id, s1, [Req Get_datasets, Log SUCCESS])"
  proof (cases "first_named datasets db_name")
    case (Some dataset_id)
    with l show ?thesis by simp
  next
    case None
    from vis None obtain ok2 b2 s2 ok3 datasets2 dataset_id where
      p: "serve s (Post_dataset db_name) = (Http ok2 b2, s2)" and j: "b2 \<noteq> Not_json"
      and l2': "fst (serve s2 Get_datasets) = Http ok3 (Listing_json datasets2)"
      and f2: "first_named datasets2 db_name = Some dataset_id"
      by auto
    from l2' pure have l2: "serve s2 Get_datasets = (Http ok3 (Listing_json datasets2), s2)"
      by (metis prod.collapse)
    from l None p j l2 f2 show ?thesis by simp
  qed
qed


theorem hook_twice_same_dataset_witness:
  "hook_knowledge_dataset (Suc (Suc 0)) memory ''catalog'' [] =
     (Returned ''id-catalog'', [\<lparr>entry_id = ''id-catalog'', entry_name = ''catalog''\<rparr>],
      [Req Get_datasets, Log WARNING, Req (Post_dataset ''catalog''), Log SUCCESS,
       Req Get_datasets, Log SUCCESS])
   \<and> hook_knowledge_dataset (Suc 0) memory ''catalog''
       [\<lparr>entry_id = ''id-catalog'', entry_name = ''catalog''\<rparr>] =
     (Returned ''id-catalog'', [\<lparr>entry_id = ''id-catalog'', entry_name = ''catalog''\<rparr>],
      [Req Get_datasets, Log SUCCESS])"
proof -
  have pure: "\<forall>s. snd (memory s Get_datasets) = s"
    by simp
  have visible: "\<exists>ok datasets. fst (memory [] Get_datasets) = Http ok (Listing_json datasets)
              \<and> (first_named datasets ''catalog'' = None \<longrightarrow>
                   (\<exists>ok2 b2 s2 ok3 datasets2 dataset_id.
                      memory [] (Post_dataset ''catalog'') = (Http ok2 b2, s2) \<and> b2 \<noteq> Not_json
                      \<and> fst (memory s2 Get_datasets) = Http ok3 (Listing_json datasets2)
                      \<and> first_named datasets2 ''catalog'' = Some dataset_id))"
    by auto
  have first: "hook_knowledge_dataset (Suc (Suc 0)) memory ''catalog'' [] =
     (Returned ''id-catalog'', [\<lparr>entry_id = ''id-catalog'', entry_name = ''catalog''\<rparr>],
      [Req Get_datasets, Log WARNING, Req (Post_dataset ''catalog''), Log SUCCESS,
       Req Get_datasets, Log SUCCESS])"
    by simp
  from hook_twice_same_dataset [where serve = memory and db_name = "''catalog''"
      and s = "[]" and m = 0 and n = 0, OF pure]
  have total: "\<exists>dataset_id s1 tr1.
      hook_knowledge_dataset (Suc (Suc 0)) memory ''catalog'' [] = (Returned dataset_id, s1, tr1)
      \<and> length (filter (\<lambda>r. r = Post_dataset ''catalog'') (requests_of tr1)) \<le> 1
      \<and> hook_knowledge_dataset (Suc 0) memory ''catalog'' s1 =
           (Returned dataset_id, s1, [Req Get_datasets, Log SUCCESS])"
    using visible by blast
  with first show ?thesis
    by simp
qed

section \<open>Bulk delete\<close>

text \<open>
  Claim C8. When the dataset resolves and its unfiltered listing (no keyword) is answered
  with the documents \<open>docs\<close>, and every delete is answered (with a success or an error
  status, not a transport failure), \<^verbatim>\<open>delete_all_document\<close> returns normally and its
  requests are those of the resolution, the listing, and one delete per listed document, in
  listing order, whichever of the deletes are rejected. A delete answered with an error
  status is caught: a warning is logged and the loop goes on with the remaining documents.
\<close>

theorem delete_all_best_effort:
  assumes "hook_knowledge_dataset n serve db_name s = (Returned dataset_id, s1, tr1)"
    and "serve s1 (Get_documents dataset_id None) = (Http ok (Listing_json docs), s2)"
    and "\<forall>s document_id. fst (serve s (Delete_document dataset_id document_id)) \<noteq> Transport_failure"
  shows "fst (delete_all_document n serve db_name s) = Returned ()
       \<and> requests_of (snd (snd (delete_all_document n serve db_name s))) =
           requests_of tr1 @ [Get_documents dataset_id None] @
           map (\<lambda>doc. Delete_document dataset_id (entry_id doc)) docs
       \<and> (\<forall>doc rest s3 b s4.
            serve s3 (Delete_document dataset_id (entry_id doc)) = (Http False b, s4) \<longrightarrow>
            delete_loop serve dataset_id (doc # rest) s3 =
              emit [Req (Delete_document dataset_id (entry_id doc)), Log WARNING]
                (delete_loop serve dataset_id rest s4))"
proof -
  obtain out s3 tr3 where loop: "delete_loop serve dataset_id docs s2 = (out, s3, tr3)"
    by (cases "delete_loop serve dataset_id docs s2")
  with delete_loop_all [OF assms(3), of docs s2]
  have "out = Returned ()"
    and "requests_of tr3 = map (\<lambda>doc. Delete_document dataset_id (entry_id doc)) docs"
    by simp_all
  with loop assms(1,2)
  have "fst (delete_all_document n serve db_name s) = Returned ()"
    and "requests_of (snd (snd (delete_all_document n serve db_name s))) =
           requests_of tr1 @ [Get_documents dataset_id None] @
           map (\<lambda>doc. Delete_document dataset_id (entry_id doc)) docs"
    by (simp_all add: delete_all_document_def list_documents_def)
  moreover have "\<forall>doc rest s3 b s4.
            serve s3 (Delete_document dataset_id (entry_id doc)) = (Http False b, s4) \<longrightarrow>
            delete_loop serve dataset_id (doc # rest) s3 =
              emit [Req (Delete_document dataset_id (entry_id doc)), Log WARNING]
                (delete_loop serve dataset_id rest s4)"
    by (intro allI impI) (rule delete_loop_rejected)
  ultimately show ?thesis by blast
qed


theorem delete_all_best_effort_witness:
  "delete_all_document (Suc 0) (by_request picky) ''catalog'' () =
     (Returned (), (),
      [Req Get_datasets, Log SUCCESS, Req (Get_documents ''d1'' None),
       Req (Delete_document ''d1'' ''doc1''), Log WARNING,
       Req (Delete_document ''d1'' ''doc2''), Log DEBUG,
       Log SUCCESS])"
proof -
  have resolved: "hook_knowledge_dataset (Suc 0) (by_request picky) ''catalog'' () =
      (Returned ''d1'', (), [Req Get_datasets, Log SUCCESS])"
    by (simp add: by_request_def picky_def catalog_def)
  have listing: "by_request picky () (Get_documents ''d1'' None) =
      (Http True (Listing_json [users_doc, orders_doc]), ())"
    by (simp add: by_request_def picky_def)
  have answered: "\<forall>s document_id.
      fst (by_request picky s (Delete_document ''d1'' document_id)) \<noteq> Transport_failure"
    by (simp add: by_request_def picky_def)
  show ?thesis
    using delete_all_best_effort [OF resolved listing answered]
    by (simp add: delete_all_document_def list_documents_def delete_document_def
        by_request_def picky_def catalog_def users_doc_def orders_doc_def)
qed


text \<open>
  Claim C10. When the listing of the datasets lacks the name, \<^verbatim>\<open>delete_all_document\<close>
  first sends the create-dataset request for that name, whatever happens afterwards; when
  the create is answered with JSON, the next listing has the name and the new dataset
  lists no document, the call sends exactly: listing, create, listing, listing of the
  documents, and no delete, and returns.
\<close>

theorem delete_all_creates_dataset:
  assumes "serve s Get_datasets = (Http ok (Listing_json datasets), s1)"
    and "first_named datasets db_name = None"
  shows "(\<exists>out s' rest. delete_all_document (Suc n) serve db_name s =
            (out, s', [Req Get_datasets, Log WARNING, Req (Post_dataset db_name)] @ rest))
       \<and> (serve s1 (Post_dataset db_name) = (Http ok2 b2, s2) \<and> b2 \<noteq> Not_json
            \<and> serve s2 Get_datasets = (Http ok3 (Listing_json datasets2), s3)
            \<and> first_named datasets2 db_name = Some dataset_id
            \<and> serve s3 (Get_documents dataset_id None) = (Http ok4 (Listing_json []), s4) \<longrightarrow>
          delete_all_document (Suc (Suc n)) serve db_name s =
            (Returned (), s4,
             [Req Get_datasets, Log WARNING, Req (Post_dataset db_name), Log SUCCESS,
              Req Get_datasets, Log SUCCESS,
              Req (Get_documents dataset_id None), Log SUCCESS]))"
proof
  show "\<exists>out s' rest. delete_all_document (Suc n) serve db_name s =
            (out, s', [Req Get_datasets, Log WARNING, Req (Post_dataset db_name)] @ rest)"
    unfolding delete_all_document_def
    by (rule and_then_prefix) (rule hook_creates_first [where serve = serve and s = s, OF assms])
next
  show "serve s1 (Post_dataset db_name) = (Http ok2 b2, s2) \<and> b2 \<noteq> Not_json
            \<and> serve s2 Get_datasets = (Http ok3 (Listing_json datasets2), s3)
            \<and> first_named datasets2 db_name = Some dataset_id
            \<and> serve s3 (Get_documents dataset_id None) = (Http ok4 (Listing_json []), s4) \<longrightarrow>
          delete_all_document (Suc (Suc n)) serve db_name s =
            (Returned (), s4,
             [Req Get_datasets, Log WARNING, Req (Post_dataset db_name), Log SUCCESS,
              Req Get_datasets, Log SUCCESS,
              Req (Get_documents dataset_id None), Log SUCCESS])"
    using assms by (simp add: delete_all_document_def list_documents_def)
qed


theorem delete_all_creates_dataset_witness:
  "delete_all_document (Suc (Suc 0)) memory ''catalog'' [] =
     (Returned (), [\<lparr>entry_id = ''id-catalog'', entry_name = ''catalog''\<rparr>],
      [Req Get_datasets, Log WARNING, Req (Post_dataset ''catalog''), Log SUCCESS,
       Req Get_datasets, Log SUCCESS,
       Req (Get_documents ''id-catalog'' None), Log SUCCESS])"
proof -
  have listing: "memory [] Get_datasets = (Http True (Listing_json []), [])"
    by simp
  have absent: "first_named [] ''catalog'' = None"
    by simp
  show ?thesis
    using delete_all_creates_dataset [where serve = memory and n = 0 and ?ok2.0 = True
        and ?b2.0 = Other_json and ?s2.0 = "[\<lparr>entry_id = ''id-catalog'', entry_name = ''catalog''\<rparr>]"
        and ?ok3.0 = True and ?datasets2.0 = "[\<lparr>entry_id = ''id-catalog'', entry_name = ''catalog''\<rparr>]"
        and ?s3.0 = "[\<lparr>entry_id = ''id-catalog'', entry_name = ''catalog''\<rparr>]"
        and dataset_id = "''id-catalog''" and ?ok4.0 = True
        and ?s4.0 = "[\<lparr>entry_id = ''id-catalog'', entry_name = ''catalog''\<rparr>]",
        OF listing absent]
    by simp
qed


section \<open>The indexing monitor\<close>

text \<open>
  Claim C6. Every iteration of the loop of \<^verbatim>\<open>_sync_indexing_status\<close> sends one poll and
  then calls \<^verbatim>\<open>time.sleep(1)\<close>. For polls that are answered with a status: when poll
  number \<open>k\<close> is the first whose status is \<^verbatim>\<open>"completed"\<close> or \<^verbatim>\<open>"error"\<close>, the loop has
  not ended within \<open>k\<close> iterations and returns at the end of iteration \<open>k + 1\<close>, whatever
  further budget it is given; when no poll ever has such a status, the loop has not ended
  within \<open>n\<close> iterations, for every \<open>n\<close>: it has no timeout and no iteration bound.
\<close>

theorem sync_indexing_status_exit:
  "((\<forall>j<k. \<exists>st. poll_status serve (Get_indexing_status dataset_id batch_token) j s = Some st
                \<and> \<not> terminal st)
     \<and> (\<exists>st. poll_status serve (Get_indexing_status dataset_id batch_token) k s = Some st
                \<and> terminal st) \<longrightarrow>
    (\<forall>m. sync_indexing_status (Suc k + m) serve dataset_id batch_token s =
       (Returned (), poll_state serve (Get_indexing_status dataset_id batch_token) (Suc k) s,
        polls (Suc k) (Get_indexing_status dataset_id batch_token)))
    \<and> (\<forall>n\<le>k. sync_indexing_status n serve dataset_id batch_token s =
       (Out_of_fuel, poll_state serve (Get_indexing_status dataset_id batch_token) n s,
        polls n (Get_indexing_status dataset_id batch_token))))
 \<and> ((\<forall>j. \<exists>st. poll_status serve (Get_indexing_status dataset_id batch_token) j s = Some st
                \<and> \<not> terminal st) \<longrightarrow>
    (\<forall>n. sync_indexing_status n serve dataset_id batch_token s =
       (Out_of_fuel, poll_state serve (Get_indexing_status dataset_id batch_token) n s,
        polls n (Get_indexing_status dataset_id batch_token))))"
proof (intro conjI impI allI)
  let ?r = "Get_indexing_status dataset_id batch_token"
  fix m
  assume a: "(\<forall>j<k. \<exists>st. poll_status serve ?r j s = Some st \<and> \<not> terminal st)
     \<and> (\<exists>st. poll_status serve ?r k s = Some st \<and> terminal st)"
  then obtain st where "poll_status serve ?r k s = Some st" and t: "terminal st"
    by blast
  then have "poll_status serve ?r 0 (poll_state serve ?r k s) = Some st"
    by (simp add: poll_status_def)
  from sync_step_terminal [OF this t, of m]
  have last: "sync_indexing_status (Suc m) serve dataset_id batch_token (poll_state serve ?r k s) =
      (Returned (), snd (serve (poll_state serve ?r k s) ?r), [Req ?r, Sleep 1])" .
  have shift: "poll_state serve ?r (Suc k) s = snd (serve (poll_state serve ?r k s) ?r)"
    by (induction k arbitrary: s) simp_all
  from a have "sync_indexing_status (k + Suc m) serve dataset_id batch_token s =
      emit (polls k ?r) (sync_indexing_status (Suc m) serve dataset_id batch_token
         (poll_state serve ?r k s))"
    by (intro sync_running_prefix) blast
  with last shift polls_append [of k "Suc 0" ?r]
  show "sync_indexing_status (Suc k + m) serve dataset_id batch_token s =
       (Returned (), poll_state serve ?r (Suc k) s, polls (Suc k) ?r)"
    by (simp del: poll_state.simps polls.simps add: polls.simps(1) polls.simps(2) [of 0]) 
next
  let ?r = "Get_indexing_status dataset_id batch_token"
  fix n
  assume a: "(\<forall>j<k. \<exists>st. poll_status serve ?r j s = Some st \<and> \<not> terminal st)
     \<and> (\<exists>st. poll_status serve ?r k s = Some st \<and> terminal st)"
  assume "n \<le> k"
  with a have "\<forall>j<n. \<exists>st. poll_status serve ?r j s = Some st \<and> \<not> terminal st"
    by auto
  from sync_running_prefix [OF this, of 0]
  show "sync_indexing_status n serve dataset_id batch_token s =
       (Out_of_fuel, poll_state serve ?r n s, polls n ?r)"
    by simp
next
  let ?r = "Get_indexing_status dataset_id batch_token"
  fix n
  assume "\<forall>j. \<exists>st. poll_status serve ?r j s = Some st \<and> \<not> terminal st"
  then have "\<forall>j<n. \<exists>st. poll_status serve ?r j s = Some st \<and> \<not> terminal st"
    by blast
  from sync_running_prefix [OF this, of 0]
  show "sync_indexing_status n serve dataset_id batch_token s =
       (Out_of_fuel, poll_state serve ?r n s, polls n ?r)"
    by simp
qed


theorem sync_indexing_status_exit_witness:
  "sync_indexing_status 5 (replay Transport_failure) ''d1'' ''b1''
     [progress ''waiting'', progress ''indexing'', progress ''completed'', progress ''indexing''] =
     (Returned (), [progress ''indexing''],
      [Req (Get_indexing_status ''d1'' ''b1''), Sleep 1,
       Req (Get_indexing_status ''d1'' ''b1''), Sleep 1,
       Req (Get_indexing_status ''d1'' ''b1''), Sleep 1])
   \<and> sync_indexing_status 2 (by_request (\<lambda>r. progress ''indexing'')) ''d1'' ''b1'' () =
     (Out_of_fuel, (),
      [Req (Get_indexing_status ''d1'' ''b1''), Sleep 1,
       Req (Get_indexing_status ''d1'' ''b1''), Sleep 1])"
proof -
  let ?r = "Get_indexing_status ''d1'' ''b1''"
  let ?script = "[progress ''waiting'', progress ''indexing'', progress ''completed'',
                  progress ''indexing'']"
  have reached: "(\<forall>j<Suc (Suc 0). \<exists>st. poll_status (replay Transport_failure) ?r j ?script = Some st
                    \<and> \<not> terminal st)
      \<and> (\<exists>st. poll_status (replay Transport_failure) ?r (Suc (Suc 0)) ?script = Some st
                    \<and> terminal st)"
    by (simp add: less_Suc_eq poll_status_def terminal_def progress_def)
  have never: "\<forall>j. \<exists>st. poll_status (by_request (\<lambda>r. progress ''indexing'')) ?r j () = Some st
                    \<and> \<not> terminal st"
    by (simp add: poll_status_def by_request_def terminal_def progress_def)
  have "sync_indexing_status (Suc (Suc (Suc 0)) + 2) (replay Transport_failure) ''d1'' ''b1'' ?script =
      (Returned (), poll_state (replay Transport_failure) ?r (Suc (Suc (Suc 0))) ?script,
       polls (Suc (Suc (Suc 0))) ?r)"
    using sync_indexing_status_exit [where serve = "replay Transport_failure" and s = ?script
        and dataset_id = "''d1''" and batch_token = "''b1''" and k = "Suc (Suc 0)"] reached
    by blast
  moreover have "sync_indexing_status 2 (by_request (\<lambda>r. progress ''indexing'')) ''d1'' ''b1'' () =
      (Out_of_fuel, poll_state (by_request (\<lambda>r. progress ''indexing'')) ?r 2 (), polls 2 ?r)"
    using sync_indexing_status_exit [where serve = "by_request (\<lambda>r. progress ''indexing'')"
        and s = "()" and dataset_id = "''d1''" and batch_token = "''b1''"] never
    by blast
  ultimately show ?thesis
    by (simp add: eval_nat_numeral)
qed


end
